theory Spec2Isabelle
  imports Main
begin

section \<open>The library functions called by the matching engine\<close>

text \<open>
  \<open>Condition.Matches\<close> calls \<open>json.Unmarshal\<close>, \<open>strings.ToLower\<close>, \<open>regexp.Compile\<close>
  and \<open>Regexp.MatchString\<close> of the Go standard library, and reads a \<open>github.Event\<close> of
  go-github. None of them is code of the repository. The JSON decoder is modelled below on
  parsed documents; the other three functions are parameters of the matching functions
  (the record \<open>stdlib\<close>), so every general theorem holds for whatever they compute.
\<close>

subsection \<open>encoding/json\<close>

text \<open>
  A \<open>json.RawMessage\<close> is a byte slice. It is represented by what the decoder's scanner
  makes of the bytes: either they are not a JSON text (\<open>Unmarshal\<close> then returns a
  \<open>SyntaxError\<close>), or they denote a JSON value. Object members are kept in document order,
  repeated names included, since the decoder stores them one after the other. Strings are
  byte strings (UTF-8), with the escapes of the document already resolved.
\<close>

datatype json =
    JNull
  | JBool bool
  | JNumber string
  | JString string
  | JArray "json list"
  | JObject "(string \<times> json) list"

datatype RawMessage = Malformed | Text json

datatype json_error = SyntaxError | UnmarshalTypeError

text \<open>
  A decoder stores a JSON value into a Go value that already holds something: it returns
  the new content and whether an \<open>UnmarshalTypeError\<close> was recorded. The decoder goes on after
  such an error and \<open>Unmarshal\<close> reports it at the end.
\<close>

type_synonym 'a decoder = "json \<Rightarrow> 'a \<Rightarrow> 'a \<times> bool"

text \<open>Storing into a \<open>string\<close>: a JSON string is stored, \<open>null\<close> leaves the value as it is,
  anything else is a type error.\<close>

fun store_string :: "string decoder" where
  "store_string (JString s) old = (s, False)"
| "store_string JNull old = (old, False)"
| "store_string (JBool b) old = (old, True)"
| "store_string (JNumber n) old = (old, True)"
| "store_string (JArray js) old = (old, True)"
| "store_string (JObject ms) old = (old, True)"

text \<open>
  A member name selects a struct field when it equals the field's name up to case folding.
  The folding maps ASCII letters to one case and the two non-ASCII runes that fold to an
  ASCII letter (U+017F to s, U+212A to k) to that letter; against the ASCII field names used
  here this is the decoder's comparison.
\<close>

text \<open>The lower-case form of an ASCII letter: adding 32 to a code between 65 and 90 sets
  the bit of weight 32, which these codes do not have.\<close>

definition lower_byte :: "char \<Rightarrow> char" where
  "lower_byte c =
     (let n = (of_char c :: nat) in
      if 65 \<le> n \<and> n \<le> 90
      then (case c of Char b0 b1 b2 b3 b4 b5 b6 b7 \<Rightarrow> Char b0 b1 b2 b3 b4 True b6 b7)
      else c)"

fun foldName :: "string \<Rightarrow> string" where
  "foldName (a # b # c # cs) =
     (if a = CHR 0xE2 \<and> b = CHR 0x84 \<and> c = CHR 0xAA then CHR ''k'' # foldName cs
      else if a = CHR 0xC5 \<and> b = CHR 0xBF then CHR ''s'' # foldName (c # cs)
      else lower_byte a # foldName (b # c # cs))"
| "foldName [a, b] =
     (if a = CHR 0xC5 \<and> b = CHR 0xBF then [CHR ''s''] else [lower_byte a, lower_byte b])"
| "foldName [a] = [lower_byte a]"
| "foldName [] = []"

text \<open>The members of an object, in order, into a struct with the one field \<open>name\<close>.\<close>

fun object_members :: "string \<Rightarrow> 'a decoder \<Rightarrow> (string \<times> json) list \<Rightarrow> 'a \<Rightarrow> 'a \<times> bool" where
  "object_members name dec [] x = (x, False)"
| "object_members name dec ((k, v) # ms) x =
     (if foldName k = foldName name
      then (case dec v x of (x', e) \<Rightarrow>
             (case object_members name dec ms x' of (x'', e') \<Rightarrow> (x'', e \<or> e')))
      else object_members name dec ms x)"

text \<open>Storing into a struct: an object is decoded member by member, \<open>null\<close> leaves the
  struct as it is, anything else is a type error.\<close>

fun store_struct :: "string \<Rightarrow> 'a decoder \<Rightarrow> 'a decoder" where
  "store_struct name dec (JObject ms) x = object_members name dec ms x"
| "store_struct name dec JNull x = (x, False)"
| "store_struct name dec (JBool b) x = (x, True)"
| "store_struct name dec (JNumber n) x = (x, True)"
| "store_struct name dec (JString s) x = (x, True)"
| "store_struct name dec (JArray js) x = (x, True)"

text \<open>
  Storing into a \<open>[]string\<close>. The slice is its visible elements together with the elements of
  its backing array beyond its length. An array is decoded element by element into the
  elements already there (a fresh element is the empty string), the slice is cut to the
  array's length, and an empty array gives a new empty slice; \<open>null\<close> gives the nil slice.
\<close>

fun array_elems :: "json list \<Rightarrow> string list \<Rightarrow> string list \<times> bool" where
  "array_elems [] old = ([], False)"
| "array_elems (j # js) old =
     (case store_string j (case old of [] \<Rightarrow> [] | s # _ \<Rightarrow> s) of (s', e) \<Rightarrow>
        (case array_elems js (tl old) of (ss, e') \<Rightarrow> (s' # ss, e \<or> e')))"

fun store_strings :: "(string list \<times> string list) decoder" where
  "store_strings (JArray js) (vis, spare) =
     (if js = [] then (([], []), False)
      else (case array_elems js (vis @ spare) of (ss, e) \<Rightarrow>
              ((ss, drop (length js) (vis @ spare)), e)))"
| "store_strings JNull (vis, spare) = (([], []), False)"
| "store_strings (JBool b) sl = (sl, True)"
| "store_strings (JNumber n) sl = (sl, True)"
| "store_strings (JString s) sl = (sl, True)"
| "store_strings (JObject ms) sl = (sl, True)"

definition Unmarshal :: "'a decoder \<Rightarrow> 'a \<Rightarrow> RawMessage \<Rightarrow> json_error + 'a" where
  "Unmarshal dec zero raw =
     (case raw of
        Malformed \<Rightarrow> Inl SyntaxError
      | Text j \<Rightarrow> (case dec j zero of (x, e) \<Rightarrow> if e then Inl UnmarshalTypeError else Inr x))"

text \<open>
  The five anonymous structs that \<open>Matches\<close> decodes into have one leaf each; the decoded
  struct is represented by that leaf: \<open>payload.Action\<close>, \<open>payload.Issue.Labels\<close>,
  \<open>payload.Issue.Milestone.Title\<close>, \<open>payload.Issue.Title\<close>, \<open>payload.Issue.Body\<close>.
\<close>

definition Unmarshal_Action :: "RawMessage \<Rightarrow> json_error + string" where
  "Unmarshal_Action raw = Unmarshal (store_struct ''action'' store_string) [] raw"

definition Unmarshal_Issue_Labels :: "RawMessage \<Rightarrow> json_error + string list" where
  "Unmarshal_Issue_Labels raw =
     (case Unmarshal (store_struct ''issue'' (store_struct ''labels'' store_strings)) ([], []) raw of
        Inl err \<Rightarrow> Inl err
      | Inr (vis, spare) \<Rightarrow> Inr vis)"

definition Unmarshal_Issue_Milestone_Title :: "RawMessage \<Rightarrow> json_error + string" where
  "Unmarshal_Issue_Milestone_Title raw =
     Unmarshal (store_struct ''issue'' (store_struct ''milestone'' (store_struct ''title'' store_string))) [] raw"

definition Unmarshal_Issue_Title :: "RawMessage \<Rightarrow> json_error + string" where
  "Unmarshal_Issue_Title raw =
     Unmarshal (store_struct ''issue'' (store_struct ''title'' store_string)) [] raw"

definition Unmarshal_Issue_Body :: "RawMessage \<Rightarrow> json_error + string" where
  "Unmarshal_Issue_Body raw =
     Unmarshal (store_struct ''issue'' (store_struct ''body'' store_string)) [] raw"

subsection \<open>strings and regexp\<close>

text \<open>
  \<open>ToLower\<close> is \<open>strings.ToLower\<close>; \<open>Compile\<close> is \<open>regexp.Compile\<close>, with \<open>None\<close> for a
  pattern it rejects; \<open>MatchString\<close> is \<open>(*Regexp).MatchString\<close>.
\<close>

record 'r stdlib =
  ToLower :: "string \<Rightarrow> string"
  Compile :: "string \<Rightarrow> 'r option"
  MatchString :: "'r \<Rightarrow> string \<Rightarrow> bool"

subsection \<open>The library on ASCII text\<close>

text \<open>
  For the examples the three functions are given on ASCII text. \<open>strings_ToLower\<close> maps the
  letters A to Z to lower case and leaves every other byte. The regular expressions are the
  fragment of the package's syntax that the repository's tests use: a sequence of single
  characters, each optionally followed by one of the operators \<open>*\<close>, \<open>+\<close>, \<open>?\<close> (and then
  optionally by the non-greedy mark \<open>?\<close>, which does not change whether there is a match),
  where a single character is a literal, the dot, one of the classes
  \<open>\d \D \s \S \w \W\<close> or an escaped punctuation character, the whole optionally
  preceded by the flag group \<open>(?i)\<close>. \<open>regexp_Compile\<close> rejects the patterns of this
  alphabet that the package rejects (an operator with nothing to repeat, an operator after
  an operator, a trailing backslash) and also, being a fragment, every pattern that uses
  anything else; only its results on the fragment are used.
\<close>

definition strings_ToLower :: "string \<Rightarrow> string" where
  "strings_ToLower s = map lower_byte s"

datatype atom =
    Literal char
  | FoldLiteral char
  | AnyCharNotNL
  | PerlClass char

datatype repeat = One | Star | Plus | Quest

type_synonym Regexp = "(atom \<times> repeat) list"

definition is_digit :: "char \<Rightarrow> bool" where
  "is_digit c = (let n = (of_char c :: nat) in 48 \<le> n \<and> n \<le> 57)"

definition is_alpha :: "char \<Rightarrow> bool" where
  "is_alpha c = (let n = (of_char c :: nat) in (65 \<le> n \<and> n \<le> 90) \<or> (97 \<le> n \<and> n \<le> 122))"

definition is_space :: "char \<Rightarrow> bool" where
  "is_space c = (c \<in> set [CHR 0x09, CHR 0x0A, CHR 0x0C, CHR 0x0D, CHR '' ''])"

definition is_word :: "char \<Rightarrow> bool" where
  "is_word c = (is_digit c \<or> is_alpha c \<or> c = CHR ''_'')"

definition escape :: "bool \<Rightarrow> char \<Rightarrow> atom option" where
  "escape icase e =
     (if e \<in> set ''dDsSwW'' then Some (PerlClass e)
      else if (of_char e :: nat) < 128 \<and> \<not> is_digit e \<and> \<not> is_alpha e
      then Some (if icase then FoldLiteral e else Literal e)
      else None)"

datatype previous = Nothing | Operand | Repeated | NonGreedy

text \<open>The parser reads the pattern from left to right; \<open>acc\<close> holds the items read so
  far, the last one first, and \<open>prev\<close> says what an operator would apply to.\<close>

fun parse :: "bool \<Rightarrow> previous \<Rightarrow> Regexp \<Rightarrow> string \<Rightarrow> Regexp option" where
  "parse icase prev acc [] = Some (rev acc)"
| "parse icase prev acc (c # cs) =
     (if c \<in> set ''*+?'' then
        (case (prev, acc) of
           (Operand, (a, r) # acc') \<Rightarrow>
             parse icase Repeated
               ((a, if c = CHR ''*'' then Star else if c = CHR ''+'' then Plus else Quest) # acc') cs
         | (Repeated, _) \<Rightarrow> if c = CHR ''?'' then parse icase NonGreedy acc cs else None
         | _ \<Rightarrow> None)
      else if c = CHR 0x5C then
        (case cs of
           [] \<Rightarrow> None
         | e # rest \<Rightarrow>
             (case escape icase e of
                None \<Rightarrow> None
              | Some a \<Rightarrow> parse icase Operand ((a, One) # acc) rest))
      else if c = CHR ''('' then
        (case cs of
           q # i # p # rest \<Rightarrow>
             if q = CHR ''?'' \<and> i = CHR ''i'' \<and> p = CHR '')'' \<and> acc = [] \<and> prev = Nothing \<and> \<not> icase
             then parse True Nothing [] rest else None
         | _ \<Rightarrow> None)
      else if c = CHR ''.'' then parse icase Operand ((AnyCharNotNL, One) # acc) cs
      else if c \<in> set '')|[]{}^$'' \<or> 128 \<le> (of_char c :: nat) then None
      else parse icase Operand ((if icase then FoldLiteral c else Literal c, One) # acc) cs)"

definition regexp_Compile :: "string \<Rightarrow> Regexp option" where
  "regexp_Compile expr = parse False Nothing [] expr"

fun atom_matches :: "atom \<Rightarrow> char \<Rightarrow> bool" where
  "atom_matches (Literal c) x = (x = c)"
| "atom_matches (FoldLiteral c) x = (lower_byte x = lower_byte c)"
| "atom_matches AnyCharNotNL x = (x \<noteq> CHR 0x0A)"
| "atom_matches (PerlClass e) x =
     (if e = CHR ''d'' then is_digit x
      else if e = CHR ''D'' then \<not> is_digit x
      else if e = CHR ''s'' then is_space x
      else if e = CHR ''S'' then \<not> is_space x
      else if e = CHR ''w'' then is_word x
      else \<not> is_word x)"

text \<open>\<open>match_here re s\<close>: some prefix of \<open>s\<close> matches \<open>re\<close>. \<open>MatchString\<close> reports whether
  the string contains any match, so it tries every position.\<close>

fun match_here :: "Regexp \<Rightarrow> string \<Rightarrow> bool" where
  "match_here [] s = True"
| "match_here ((a, One) # re) s =
     (case s of [] \<Rightarrow> False | x # xs \<Rightarrow> atom_matches a x \<and> match_here re xs)"
| "match_here ((a, Star) # re) s =
     (match_here re s \<or>
      (case s of [] \<Rightarrow> False | x # xs \<Rightarrow> atom_matches a x \<and> match_here ((a, Star) # re) xs))"
| "match_here ((a, Plus) # re) s =
     (case s of [] \<Rightarrow> False | x # xs \<Rightarrow> atom_matches a x \<and> match_here ((a, Star) # re) xs)"
| "match_here ((a, Quest) # re) s =
     (match_here re s \<or>
      (case s of [] \<Rightarrow> False | x # xs \<Rightarrow> atom_matches a x \<and> match_here re xs))"

fun Regexp_MatchString :: "Regexp \<Rightarrow> string \<Rightarrow> bool" where
  "Regexp_MatchString re [] = match_here re []"
| "Regexp_MatchString re (x # xs) = (match_here re (x # xs) \<or> Regexp_MatchString re xs)"

definition golib :: "Regexp stdlib" where
  "golib = \<lparr>ToLower = strings_ToLower, Compile = regexp_Compile, MatchString = Regexp_MatchString\<rparr>"

subsection \<open>go-github\<close>

text \<open>
  The fields of \<open>github.Event\<close>, \<open>github.Organization\<close> and \<open>github.Repository\<close> that
  \<open>Matches\<close> reads. All are pointers; \<open>None\<close> is nil. The getters return the zero value
  for a nil field. The event pointer itself is taken to be non-nil. Go's \<open>int\<close> is modelled
  by the integers: the IDs are only compared for equality.
\<close>

record Organization =
  ID :: "int option"

definition Organization_GetID :: "Organization \<Rightarrow> int" where
  "Organization_GetID org = (case Organization.ID org of None \<Rightarrow> 0 | Some i \<Rightarrow> i)"

record Repository =
  ID :: "int option"

definition Repository_GetID :: "Repository \<Rightarrow> int" where
  "Repository_GetID repo = (case Repository.ID repo of None \<Rightarrow> 0 | Some i \<Rightarrow> i)"

record Event =
  Type :: "string option"
  Public :: "bool option"
  RawPayload :: "RawMessage option"
  Repo :: "Repository option"
  Org :: "Organization option"

definition GetType :: "Event \<Rightarrow> string" where
  "GetType event = (case Event.Type event of None \<Rightarrow> [] | Some t \<Rightarrow> t)"

definition GetPublic :: "Event \<Rightarrow> bool" where
  "GetPublic event = (case Event.Public event of None \<Rightarrow> False | Some p \<Rightarrow> p)"

section \<open>Condition and Filter\<close>

record Condition =
  Negate :: bool
  Type :: string
  PayloadAction :: string
  PayloadIssueLabel :: string
  PayloadIssueMilestoneTitle :: string
  PayloadIssueTitleRegexp :: string
  PayloadIssueBodyRegexp :: string
  ComparePublic :: bool
  Public :: bool
  OrganizationID :: int
  RepositoryID :: int

record Filter =
  Conditions :: "Condition list"

section \<open>Condition.Matches\<close>

text \<open>
  The function is a sequence of \<open>if\<close> statements, each of which either returns or falls
  through to the next. Every statement is a function to \<open>bool option\<close>: \<open>Some r\<close> when the
  statement returns \<open>r\<close>, \<open>None\<close> when control reaches the statement after it.
\<close>

definition check_Type :: "Condition \<Rightarrow> Event \<Rightarrow> bool option" where
  "check_Type c event =
     (if Type c \<noteq> [] \<and> GetType event \<noteq> Type c then Some (Negate c) else None)"

definition check_PayloadAction :: "('r, 'x) stdlib_scheme \<Rightarrow> Condition \<Rightarrow> Event \<Rightarrow> bool option" where
  "check_PayloadAction lib c event =
     (if PayloadAction c \<noteq> [] then
        (case RawPayload event of
           None \<Rightarrow> Some False
         | Some raw \<Rightarrow>
             (case Unmarshal_Action raw of
                Inl err \<Rightarrow> Some False
              | Inr action \<Rightarrow>
                  if ToLower lib action \<noteq> ToLower lib (PayloadAction c)
                  then Some (Negate c) else None))
      else None)"

text \<open>The loop over the labels: \<open>found\<close> is set at every label that compares equal.\<close>

fun label_loop :: "('r, 'x) stdlib_scheme \<Rightarrow> Condition \<Rightarrow> string list \<Rightarrow> bool \<Rightarrow> bool" where
  "label_loop lib c [] found = found"
| "label_loop lib c (label # labels) found =
     label_loop lib c labels
       (if ToLower lib label = ToLower lib (PayloadIssueLabel c) then True else found)"

definition check_PayloadIssueLabel :: "('r, 'x) stdlib_scheme \<Rightarrow> Condition \<Rightarrow> Event \<Rightarrow> bool option" where
  "check_PayloadIssueLabel lib c event =
     (if PayloadIssueLabel c \<noteq> [] then
        (case RawPayload event of
           None \<Rightarrow> Some False
         | Some raw \<Rightarrow>
             (case Unmarshal_Issue_Labels raw of
                Inl err \<Rightarrow> Some False
              | Inr labels \<Rightarrow>
                  if \<not> label_loop lib c labels False then Some (Negate c) else None))
      else None)"

definition check_PayloadIssueMilestoneTitle :: "('r, 'x) stdlib_scheme \<Rightarrow> Condition \<Rightarrow> Event \<Rightarrow> bool option" where
  "check_PayloadIssueMilestoneTitle lib c event =
     (if PayloadIssueMilestoneTitle c \<noteq> [] then
        (case RawPayload event of
           None \<Rightarrow> Some False
         | Some raw \<Rightarrow>
             (case Unmarshal_Issue_Milestone_Title raw of
                Inl err \<Rightarrow> Some False
              | Inr title \<Rightarrow>
                  if ToLower lib title \<noteq> ToLower lib (PayloadIssueMilestoneTitle c)
                  then Some (Negate c) else None))
      else None)"

definition check_PayloadIssueTitleRegexp :: "('r, 'x) stdlib_scheme \<Rightarrow> Condition \<Rightarrow> Event \<Rightarrow> bool option" where
  "check_PayloadIssueTitleRegexp lib c event =
     (if PayloadIssueTitleRegexp c \<noteq> [] then
        (case RawPayload event of
           None \<Rightarrow> Some False
         | Some raw \<Rightarrow>
             (case Unmarshal_Issue_Title raw of
                Inl err \<Rightarrow> Some False
              | Inr title \<Rightarrow>
                  (case Compile lib (PayloadIssueTitleRegexp c) of
                     None \<Rightarrow> Some False
                   | Some re \<Rightarrow>
                       if \<not> MatchString lib re title then Some (Negate c) else None)))
      else None)"

definition check_PayloadIssueBodyRegexp :: "('r, 'x) stdlib_scheme \<Rightarrow> Condition \<Rightarrow> Event \<Rightarrow> bool option" where
  "check_PayloadIssueBodyRegexp lib c event =
     (if PayloadIssueBodyRegexp c \<noteq> [] then
        (case RawPayload event of
           None \<Rightarrow> Some False
         | Some raw \<Rightarrow>
             (case Unmarshal_Issue_Body raw of
                Inl err \<Rightarrow> Some False
              | Inr body \<Rightarrow>
                  (case Compile lib (PayloadIssueBodyRegexp c) of
                     None \<Rightarrow> Some False
                   | Some re \<Rightarrow>
                       if \<not> MatchString lib re body then Some (Negate c) else None)))
      else None)"

definition check_Public :: "Condition \<Rightarrow> Event \<Rightarrow> bool option" where
  "check_Public c event =
     (if ComparePublic c \<and> GetPublic event \<noteq> Public c then Some (Negate c) else None)"

definition check_OrganizationID :: "Condition \<Rightarrow> Event \<Rightarrow> bool option" where
  "check_OrganizationID c event =
     (if OrganizationID c \<noteq> 0 \<and>
         (case Org event of None \<Rightarrow> True | Some org \<Rightarrow> Organization_GetID org \<noteq> OrganizationID c)
      then Some (Negate c) else None)"

definition check_RepositoryID :: "Condition \<Rightarrow> Event \<Rightarrow> bool option" where
  "check_RepositoryID c event =
     (if RepositoryID c \<noteq> 0 \<and>
         (case Repo event of None \<Rightarrow> True | Some repo \<Rightarrow> Repository_GetID repo \<noteq> RepositoryID c)
      then Some (Negate c) else None)"

definition Matches :: "('r, 'x) stdlib_scheme \<Rightarrow> Condition \<Rightarrow> Event \<Rightarrow> bool" where
  "Matches lib c event =
     (case check_Type c event of Some r \<Rightarrow> r | None \<Rightarrow>
     (case check_PayloadAction lib c event of Some r \<Rightarrow> r | None \<Rightarrow>
     (case check_PayloadIssueLabel lib c event of Some r \<Rightarrow> r | None \<Rightarrow>
     (case check_PayloadIssueMilestoneTitle lib c event of Some r \<Rightarrow> r | None \<Rightarrow>
     (case check_PayloadIssueTitleRegexp lib c event of Some r \<Rightarrow> r | None \<Rightarrow>
     (case check_PayloadIssueBodyRegexp lib c event of Some r \<Rightarrow> r | None \<Rightarrow>
     (case check_Public c event of Some r \<Rightarrow> r | None \<Rightarrow>
     (case check_OrganizationID c event of Some r \<Rightarrow> r | None \<Rightarrow>
     (case check_RepositoryID c event of Some r \<Rightarrow> r | None \<Rightarrow>
      \<not> Negate c)))))))))"

section \<open>Filter.Matches\<close>

text \<open>The loop over \<open>f.Conditions\<close>: return false at the first condition that does not
  match, true when the range is exhausted. The earlier revision of the file among the
  sources, \<open>ghfilter.go\<close>, has the same \<open>Filter.Matches\<close>; its \<open>Condition\<close> has no Negate,
  milestone or regexp fields, and \<open>Matches\<close> above is the later revision.\<close>

fun Conditions_loop :: "('r, 'x) stdlib_scheme \<Rightarrow> Condition list \<Rightarrow> Event \<Rightarrow> bool" where
  "Conditions_loop lib [] event = True"
| "Conditions_loop lib (condition # rest) event =
     (if \<not> Matches lib condition event then False else Conditions_loop lib rest event)"

definition Filter_Matches :: "('r, 'x) stdlib_scheme \<Rightarrow> Filter \<Rightarrow> Event \<Rightarrow> bool" where
  "Filter_Matches lib f event = Conditions_loop lib (Conditions f) event"

section \<open>The sub-checks as the specification describes them\<close>

text \<open>
  The specification speaks of nine sub-checks, evaluated in a fixed order, each of which is
  unset, succeeds, fails its comparison on data that is there, or lacks the data it needs
  (for the two regular-expression sub-checks there is also the pattern that does not
  compile). The definitions of this section follow those words; the lemmas below relate
  them to the statements of \<open>Matches\<close>.
\<close>

datatype sub_check =
    TypeCheck
  | PayloadActionCheck
  | PayloadIssueLabelCheck
  | PayloadIssueMilestoneTitleCheck
  | PayloadIssueTitleRegexpCheck
  | PayloadIssueBodyRegexpCheck
  | PublicCheck
  | OrganizationIDCheck
  | RepositoryIDCheck

definition evaluation_order :: "sub_check list" where
  "evaluation_order =
     [TypeCheck, PayloadActionCheck, PayloadIssueLabelCheck, PayloadIssueMilestoneTitleCheck,
      PayloadIssueTitleRegexpCheck, PayloadIssueBodyRegexpCheck, PublicCheck,
      OrganizationIDCheck, RepositoryIDCheck]"

fun configured :: "sub_check \<Rightarrow> Condition \<Rightarrow> bool" where
  "configured TypeCheck c = (Type c \<noteq> [])"
| "configured PayloadActionCheck c = (PayloadAction c \<noteq> [])"
| "configured PayloadIssueLabelCheck c = (PayloadIssueLabel c \<noteq> [])"
| "configured PayloadIssueMilestoneTitleCheck c = (PayloadIssueMilestoneTitle c \<noteq> [])"
| "configured PayloadIssueTitleRegexpCheck c = (PayloadIssueTitleRegexp c \<noteq> [])"
| "configured PayloadIssueBodyRegexpCheck c = (PayloadIssueBodyRegexp c \<noteq> [])"
| "configured PublicCheck c = ComparePublic c"
| "configured OrganizationIDCheck c = (OrganizationID c \<noteq> 0)"
| "configured RepositoryIDCheck c = (RepositoryID c \<noteq> 0)"

definition payload_dependent :: "sub_check \<Rightarrow> bool" where
  "payload_dependent k =
     (k \<in> set [PayloadActionCheck, PayloadIssueLabelCheck, PayloadIssueMilestoneTitleCheck,
               PayloadIssueTitleRegexpCheck, PayloadIssueBodyRegexpCheck])"

text \<open>Whether the raw payload decodes into the shape that the sub-check \<open>k\<close> expects.\<close>

fun decodes :: "sub_check \<Rightarrow> RawMessage \<Rightarrow> bool" where
  "decodes PayloadActionCheck raw = (\<not> isl (Unmarshal_Action raw))"
| "decodes PayloadIssueLabelCheck raw = (\<not> isl (Unmarshal_Issue_Labels raw))"
| "decodes PayloadIssueMilestoneTitleCheck raw = (\<not> isl (Unmarshal_Issue_Milestone_Title raw))"
| "decodes PayloadIssueTitleRegexpCheck raw = (\<not> isl (Unmarshal_Issue_Title raw))"
| "decodes PayloadIssueBodyRegexpCheck raw = (\<not> isl (Unmarshal_Issue_Body raw))"
| "decodes TypeCheck raw = True"
| "decodes PublicCheck raw = True"
| "decodes OrganizationIDCheck raw = True"
| "decodes RepositoryIDCheck raw = True"

datatype outcome = Unset | Succeeds | ComparisonFails | DataAbsent | PatternMalformed

text \<open>The comparison of a payload sub-check, on the decoded payload.\<close>

definition with_payload :: "Event \<Rightarrow> (RawMessage \<Rightarrow> json_error + 'a) \<Rightarrow> ('a \<Rightarrow> outcome) \<Rightarrow> outcome" where
  "with_payload event unmarshal compare =
     (case RawPayload event of
        None \<Rightarrow> DataAbsent
      | Some raw \<Rightarrow> (case unmarshal raw of Inl err \<Rightarrow> DataAbsent | Inr payload \<Rightarrow> compare payload))"

definition compared :: "bool \<Rightarrow> outcome" where
  "compared ok = (if ok then Succeeds else ComparisonFails)"

definition search :: "('r, 'x) stdlib_scheme \<Rightarrow> string \<Rightarrow> string \<Rightarrow> outcome" where
  "search lib pattern s =
     (case Compile lib pattern of
        None \<Rightarrow> PatternMalformed
      | Some re \<Rightarrow> compared (MatchString lib re s))"

fun outcome_of :: "('r, 'x) stdlib_scheme \<Rightarrow> sub_check \<Rightarrow> Condition \<Rightarrow> Event \<Rightarrow> outcome" where
  "outcome_of lib TypeCheck c event =
     (if Type c = [] then Unset else compared (GetType event = Type c))"
| "outcome_of lib PayloadActionCheck c event =
     (if PayloadAction c = [] then Unset
      else with_payload event Unmarshal_Action
             (\<lambda>action. compared (ToLower lib action = ToLower lib (PayloadAction c))))"
| "outcome_of lib PayloadIssueLabelCheck c event =
     (if PayloadIssueLabel c = [] then Unset
      else with_payload event Unmarshal_Issue_Labels
             (\<lambda>labels. compared (\<exists>label \<in> set labels. ToLower lib label = ToLower lib (PayloadIssueLabel c))))"
| "outcome_of lib PayloadIssueMilestoneTitleCheck c event =
     (if PayloadIssueMilestoneTitle c = [] then Unset
      else with_payload event Unmarshal_Issue_Milestone_Title
             (\<lambda>title. compared (ToLower lib title = ToLower lib (PayloadIssueMilestoneTitle c))))"
| "outcome_of lib PayloadIssueTitleRegexpCheck c event =
     (if PayloadIssueTitleRegexp c = [] then Unset
      else with_payload event Unmarshal_Issue_Title (search lib (PayloadIssueTitleRegexp c)))"
| "outcome_of lib PayloadIssueBodyRegexpCheck c event =
     (if PayloadIssueBodyRegexp c = [] then Unset
      else with_payload event Unmarshal_Issue_Body (search lib (PayloadIssueBodyRegexp c)))"
| "outcome_of lib PublicCheck c event =
     (if \<not> ComparePublic c then Unset else compared (GetPublic event = Public c))"
| "outcome_of lib OrganizationIDCheck c event =
     (if OrganizationID c = 0 then Unset
      else (case Org event of
              None \<Rightarrow> DataAbsent
            | Some org \<Rightarrow> compared (Organization_GetID org = OrganizationID c)))"
| "outcome_of lib RepositoryIDCheck c event =
     (if RepositoryID c = 0 then Unset
      else (case Repo event of
              None \<Rightarrow> DataAbsent
            | Some repo \<Rightarrow> compared (Repository_GetID repo = RepositoryID c)))"

definition passes :: "('r, 'x) stdlib_scheme \<Rightarrow> Condition \<Rightarrow> Event \<Rightarrow> sub_check \<Rightarrow> bool" where
  "passes lib c event k = (outcome_of lib k c event = Unset \<or> outcome_of lib k c event = Succeeds)"

text \<open>\<open>k\<close> is the one sub-check that the condition configures.\<close>

definition only :: "sub_check \<Rightarrow> Condition \<Rightarrow> bool" where
  "only k c = (\<forall>k' \<in> set evaluation_order. configured k' c = (k' = k))"

text \<open>The event has a payload and \<open>json.Unmarshal\<close> returns no error for it.\<close>

definition payload_decodes :: "sub_check \<Rightarrow> Event \<Rightarrow> bool" where
  "payload_decodes k event =
     (case RawPayload event of None \<Rightarrow> False | Some raw \<Rightarrow> decodes k raw)"

text \<open>
  The path that a payload sub-check expects: \<open>action\<close>, \<open>issue.labels\<close>,
  \<open>issue.milestone.title\<close>, \<open>issue.title\<close>, \<open>issue.body\<close>, with a string there, or an
  array of strings for the labels. A document that has no such member, or has \<open>null\<close> or a
  value of another type there, does not have the path. The value of a member is that of
  the last member of the object whose name folds to the name asked for.
\<close>

fun json_member :: "string \<Rightarrow> json \<Rightarrow> json option" where
  "json_member name (JObject ms) =
     (case filter (\<lambda>(k, v). foldName k = foldName name) ms of
        [] \<Rightarrow> None
      | m # rest \<Rightarrow> Some (snd (last (m # rest))))"
| "json_member name JNull = None"
| "json_member name (JBool b) = None"
| "json_member name (JNumber n) = None"
| "json_member name (JString s) = None"
| "json_member name (JArray js) = None"

fun is_string :: "json \<Rightarrow> bool" where
  "is_string (JString s) = True"
| "is_string JNull = False"
| "is_string (JBool b) = False"
| "is_string (JNumber n) = False"
| "is_string (JArray js) = False"
| "is_string (JObject ms) = False"

fun is_strings :: "json \<Rightarrow> bool" where
  "is_strings (JArray js) = list_all is_string js"
| "is_strings JNull = False"
| "is_strings (JBool b) = False"
| "is_strings (JNumber n) = False"
| "is_strings (JString s) = False"
| "is_strings (JObject ms) = False"

text \<open>\<open>at path j ok\<close>: following the member names of \<open>path\<close> from \<open>j\<close> leads to a value
  of which \<open>ok\<close> holds.\<close>

fun at :: "string list \<Rightarrow> json \<Rightarrow> (json \<Rightarrow> bool) \<Rightarrow> bool" where
  "at [] j ok = ok j"
| "at (name # path) j ok =
     (case json_member name j of None \<Rightarrow> False | Some v \<Rightarrow> at path v ok)"

fun has_path :: "sub_check \<Rightarrow> json \<Rightarrow> bool" where
  "has_path PayloadActionCheck j = at [''action''] j is_string"
| "has_path PayloadIssueLabelCheck j = at [''issue'', ''labels''] j is_strings"
| "has_path PayloadIssueMilestoneTitleCheck j = at [''issue'', ''milestone'', ''title''] j is_string"
| "has_path PayloadIssueTitleRegexpCheck j = at [''issue'', ''title''] j is_string"
| "has_path PayloadIssueBodyRegexpCheck j = at [''issue'', ''body''] j is_string"
| "has_path TypeCheck j = True"
| "has_path PublicCheck j = True"
| "has_path OrganizationIDCheck j = True"
| "has_path RepositoryIDCheck j = True"

text \<open>
  The data that a sub-check requires of the event. For a payload sub-check it is a
  payload that \<open>json.Unmarshal\<close> accepts and that has the path the sub-check expects; for an
  ID sub-check it is the organization or repository reference; the type and the
  visibility are read through getters that always give a value.
\<close>

definition data_present :: "sub_check \<Rightarrow> Event \<Rightarrow> bool" where
  "data_present k event =
     (if payload_dependent k
      then (case RawPayload event of
              None \<Rightarrow> False
            | Some Malformed \<Rightarrow> False
            | Some (Text j) \<Rightarrow> decodes k (Text j) \<and> has_path k j)
      else if k = OrganizationIDCheck then Org event \<noteq> None
      else if k = RepositoryIDCheck then Repo event \<noteq> None
      else True)"

definition pattern_compiles :: "('r, 'x) stdlib_scheme \<Rightarrow> sub_check \<Rightarrow> Condition \<Rightarrow> bool" where
  "pattern_compiles lib k c =
     (if k = PayloadIssueTitleRegexpCheck then Compile lib (PayloadIssueTitleRegexp c) \<noteq> None
      else if k = PayloadIssueBodyRegexpCheck then Compile lib (PayloadIssueBodyRegexp c) \<noteq> None
      else True)"

text \<open>The statement of \<open>Matches\<close> that belongs to a sub-check.\<close>

fun statement :: "('r, 'x) stdlib_scheme \<Rightarrow> Condition \<Rightarrow> Event \<Rightarrow> sub_check \<Rightarrow> bool option" where
  "statement lib c event TypeCheck = check_Type c event"
| "statement lib c event PayloadActionCheck = check_PayloadAction lib c event"
| "statement lib c event PayloadIssueLabelCheck = check_PayloadIssueLabel lib c event"
| "statement lib c event PayloadIssueMilestoneTitleCheck = check_PayloadIssueMilestoneTitle lib c event"
| "statement lib c event PayloadIssueTitleRegexpCheck = check_PayloadIssueTitleRegexp lib c event"
| "statement lib c event PayloadIssueBodyRegexpCheck = check_PayloadIssueBodyRegexp lib c event"
| "statement lib c event PublicCheck = check_Public c event"
| "statement lib c event OrganizationIDCheck = check_OrganizationID c event"
| "statement lib c event RepositoryIDCheck = check_RepositoryID c event"

text \<open>Running statements in sequence: the first one that returns decides.\<close>

fun first_return :: "bool option list \<Rightarrow> bool \<Rightarrow> bool" where
  "first_return [] final = final"
| "first_return (None # rest) final = first_return rest final"
| "first_return (Some r # rest) final = r"

section \<open>Condition.String\<close>

text \<open>
  Modelled from the spec: the \<open>String\<close> method of \<open>Condition\<close>, which is not among the
  sources (only its test \<open>TestFilter_string\<close> is). The specification gives the rendering as
  the clauses of the configured sub-checks, in the order of evaluation, joined with
  \<open>" AND "\<close> after the word \<open>If\<close>; a clause says \<open>is\<close> or \<open>is not\<close>, \<open>contains\<close> or
  \<open>does not contain\<close>, \<open>matches regexp\<close> or \<open>does not match regexp\<close> according to Negate;
  the visibility clause says \<open>not\<close> once for Negate and once for a false \<open>Public\<close>. String
  values are written between double quotes, a double quote inside them after a backslash,
  as the expected strings of the test have them; numbers in decimal.
\<close>

definition quote :: "string \<Rightarrow> string" where
  "quote s =
     [CHR 0x22] @ concat (map (\<lambda>c. if c = CHR 0x22 then [CHR 0x5C, CHR 0x22] else [c]) s) @ [CHR 0x22]"

fun decimal :: "nat \<Rightarrow> string" where
  "decimal n =
     (if n < 10 then [''0123456789'' ! n] else decimal (n div 10) @ [''0123456789'' ! (n mod 10)])"

declare decimal.simps [simp del]

definition Itoa :: "int \<Rightarrow> string" where
  "Itoa i = (if i < 0 then CHR ''-'' # decimal (nat (- i)) else decimal (nat i))"

definition is_or_is_not :: "Condition \<Rightarrow> string" where
  "is_or_is_not c = (if Negate c then ''is not '' else ''is '')"

fun clause :: "Condition \<Rightarrow> sub_check \<Rightarrow> string" where
  "clause c TypeCheck = ''type '' @ is_or_is_not c @ quote (Type c)"
| "clause c PayloadActionCheck = ''payload action '' @ is_or_is_not c @ quote (PayloadAction c)"
| "clause c PayloadIssueLabelCheck =
     ''payload issue label '' @ (if Negate c then ''does not contain '' else ''contains '') @
     quote (PayloadIssueLabel c)"
| "clause c PayloadIssueMilestoneTitleCheck =
     ''payload issue milestone title '' @ is_or_is_not c @ quote (PayloadIssueMilestoneTitle c)"
| "clause c PayloadIssueTitleRegexpCheck =
     ''payload issue title '' @ (if Negate c then ''does not match regexp '' else ''matches regexp '') @
     quote (PayloadIssueTitleRegexp c)"
| "clause c PayloadIssueBodyRegexpCheck =
     ''payload issue body '' @ (if Negate c then ''does not match regexp '' else ''matches regexp '') @
     quote (PayloadIssueBodyRegexp c)"
| "clause c PublicCheck =
     ''event '' @ is_or_is_not c @ (if Public c then [] else ''not '') @ ''public''"
| "clause c OrganizationIDCheck = ''organization ID '' @ is_or_is_not c @ Itoa (OrganizationID c)"
| "clause c RepositoryIDCheck = ''repository ID '' @ is_or_is_not c @ Itoa (RepositoryID c)"

fun Join :: "string list \<Rightarrow> string \<Rightarrow> string" where
  "Join [] sep = []"
| "Join [a] sep = a"
| "Join (a # b # rest) sep = a @ sep @ Join (b # rest) sep"

definition Condition_String :: "Condition \<Rightarrow> string" where
  "Condition_String c =
     ''If '' @ Join (map (clause c) (filter (\<lambda>k. configured k c) evaluation_order)) '' AND ''"

section \<open>Values used in the examples\<close>

text \<open>The zero values \<open>Condition{}\<close> and \<open>github.Event{}\<close>.\<close>

definition Condition_zero :: Condition where
  "Condition_zero =
     \<lparr>Negate = False, Type = [], PayloadAction = [], PayloadIssueLabel = [],
      PayloadIssueMilestoneTitle = [], PayloadIssueTitleRegexp = [],
      PayloadIssueBodyRegexp = [], ComparePublic = False, Public = False,
      OrganizationID = 0, RepositoryID = 0\<rparr>"

definition Event_zero :: Event where
  "Event_zero =
     \<lparr>Event.Type = None, Event.Public = None, RawPayload = None, Repo = None, Org = None\<rparr>"

text \<open>The three events of \<open>TestFilter_matches\<close>.\<close>

definition private_issue_Event :: Event where
  "private_issue_Event = Event_zero\<lparr>Event.Type := Some ''IssuesEvent'', Event.Public := Some False\<rparr>"

definition public_issue_Event :: Event where
  "public_issue_Event = Event_zero\<lparr>Event.Type := Some ''IssuesEvent'', Event.Public := Some True\<rparr>"

definition private_push_Event :: Event where
  "private_push_Event = Event_zero\<lparr>Event.Type := Some ''PushEvent'', Event.Public := Some False\<rparr>"

text \<open>An event whose payload is \<open>{"action":"opened"}\<close>.\<close>

definition opened_Event :: Event where
  "opened_Event = Event_zero\<lparr>RawPayload := Some (Text (JObject [(''action'', JString ''opened'')]))\<rparr>"

text \<open>A condition whose payload-action comparison fails on \<open>opened_Event\<close>, and whose
  title pattern, further down the order, does not compile.\<close>

definition early_return_Condition :: Condition where
  "early_return_Condition =
     Condition_zero\<lparr>Negate := True, PayloadAction := ''closed'', PayloadIssueTitleRegexp := ''*''\<rparr>"

text \<open>The filter of \<open>TestFilter_matches\<close>.\<close>

definition private_issues_Filter :: Filter where
  "private_issues_Filter =
     \<lparr>Conditions = [Condition_zero\<lparr>ComparePublic := True, Public := False\<rparr>,
                    Condition_zero\<lparr>Type := ''IssuesEvent''\<rparr>]\<rparr>"

text \<open>Payloads of the repository's tests: \<open>{"issue":{"labels":["LBL","x"]}}\<close>,
  \<open>{"issue":{"labels":[]}}\<close>, \<open>{"issue":{"milestone":null}}\<close>,
  \<open>{"issue":{"milestone":{"Title":"title"}}}\<close>, \<open>{"issue":{"title":"This will Match"}}\<close>
  and \<open>{"issue":{"title":"This will Not Match"}}\<close>.\<close>

definition labels_Event :: Event where
  "labels_Event =
     Event_zero\<lparr>RawPayload := Some (Text (JObject
       [(''issue'', JObject [(''labels'', JArray [JString ''LBL'', JString ''x''])])]))\<rparr>"

definition no_labels_Event :: Event where
  "no_labels_Event =
     Event_zero\<lparr>RawPayload := Some (Text (JObject [(''issue'', JObject [(''labels'', JArray [])])]))\<rparr>"

definition null_milestone_Event :: Event where
  "null_milestone_Event =
     Event_zero\<lparr>RawPayload := Some (Text (JObject [(''issue'', JObject [(''milestone'', JNull)])]))\<rparr>"

definition milestone_Event :: Event where
  "milestone_Event =
     Event_zero\<lparr>RawPayload := Some (Text (JObject
       [(''issue'', JObject [(''milestone'', JObject [(''Title'', JString ''title'')])])]))\<rparr>"

definition match_title_Event :: Event where
  "match_title_Event =
     Event_zero\<lparr>RawPayload := Some (Text (JObject
       [(''issue'', JObject [(''title'', JString ''This will Match'')])]))\<rparr>"

definition nomatch_title_Event :: Event where
  "nomatch_title_Event =
     Event_zero\<lparr>RawPayload := Some (Text (JObject
       [(''issue'', JObject [(''title'', JString ''This will Not Match'')])]))\<rparr>"

text \<open>The pattern \<open>(?i)will\s+match\<close> of the tests.\<close>

definition will_match :: string where
  "will_match = ''(?i)will'' @ [CHR 0x5C] @ ''s+match''"

text \<open>Payloads that do not have what a sub-check looks for: \<open>{}\<close>; an IssuesEvent whose
  labels are a string, \<open>{"action":"opened","issue":{"labels":"bug"}}\<close>; and a payload
  whose action is a number, \<open>{"action":1}\<close>.\<close>

definition empty_object_Event :: Event where
  "empty_object_Event = Event_zero\<lparr>RawPayload := Some (Text (JObject []))\<rparr>"

definition string_labels_Event :: Event where
  "string_labels_Event =
     private_issue_Event\<lparr>RawPayload := Some (Text (JObject
       [(''action'', JString ''opened''), (''issue'', JObject [(''labels'', JString ''bug'')])]))\<rparr>"

definition number_action_Event :: Event where
  "number_action_Event = Event_zero\<lparr>RawPayload := Some (Text (JObject [(''action'', JNumber ''1'')]))\<rparr>"

text \<open>An event of the organization with ID 2.\<close>

definition organization_2_Event :: Event where
  "organization_2_Event = Event_zero\<lparr>Org := Some \<lparr>Organization.ID = Some 2\<rparr>\<rparr>"

text \<open>\<open>Condition{Type: "IssuesEvent", PayloadAction: "opened", PayloadIssueLabel: "bug"}\<close>.\<close>

definition opened_bug_Condition :: Condition where
  "opened_bug_Condition =
     Condition_zero\<lparr>Type := ''IssuesEvent'', PayloadAction := ''opened'', PayloadIssueLabel := ''bug''\<rparr>"

text \<open>The pattern \<open>foo['"]\<close> of \<open>TestFilter_string\<close>, and how it is written between quotes.\<close>

definition foo_quotes :: string where
  "foo_quotes = ''foo['' @ [CHR 0x27, CHR 0x22] @ '']''"

definition foo_quotes_quoted :: string where
  "foo_quotes_quoted = [CHR 0x22] @ ''foo['' @ [CHR 0x27, CHR 0x5C, CHR 0x22] @ '']'' @ [CHR 0x22]"

section \<open>How the statements of Matches relate to the sub-checks\<close>

lemmas check_defs =
  check_Type_def check_PayloadAction_def check_PayloadIssueLabel_def
  check_PayloadIssueMilestoneTitle_def check_PayloadIssueTitleRegexp_def
  check_PayloadIssueBodyRegexp_def check_Public_def check_OrganizationID_def
  check_RepositoryID_def

lemmas decode_defs =
  Unmarshal_def Unmarshal_Action_def Unmarshal_Issue_Labels_def
  Unmarshal_Issue_Milestone_Title_def Unmarshal_Issue_Title_def Unmarshal_Issue_Body_def
  lower_byte_def

lemmas golib_defs =
  golib_def strings_ToLower_def regexp_Compile_def escape_def is_digit_def is_alpha_def
  is_space_def is_word_def

lemmas outcome_defs = with_payload_def compared_def search_def

lemmas example_defs =
  Condition_zero_def Event_zero_def opened_Event_def early_return_Condition_def
  public_issue_Event_def private_issue_Event_def private_push_Event_def
  labels_Event_def no_labels_Event_def null_milestone_Event_def milestone_Event_def
  match_title_Event_def nomatch_title_Event_def will_match_def empty_object_Event_def
  string_labels_Event_def number_action_Event_def organization_2_Event_def
  GetType_def GetPublic_def Organization_GetID_def Repository_GetID_def
  decode_defs golib_defs outcome_defs

text \<open>\<open>lower_byte\<close> adds 32 to the code of an upper-case ASCII letter.\<close>

lemma lower_byte_adds_32:
  "lower_byte c =
     (if 65 \<le> (of_char c :: nat) \<and> (of_char c :: nat) \<le> 90
      then char_of (of_char c + 32 :: nat) else c)"
proof (cases c)
  case (Char b0 b1 b2 b3 b4 b5 b6 b7)
  then show ?thesis
    by (cases b0; cases b1; cases b2; cases b3; cases b4; cases b5; cases b6; cases b7)
       (simp_all add: lower_byte_def char_of_def bit_iff_odd)
qed

text \<open>The loop over the labels computes a membership test.\<close>

lemma label_loop_found:
  "label_loop lib c labels found =
     (found \<or> (\<exists>label \<in> set labels. ToLower lib label = ToLower lib (PayloadIssueLabel c)))"
  by (induction labels arbitrary: found) auto

lemma statement_by_outcome:
  "statement lib c event k =
     (case outcome_of lib k c event of
        Unset \<Rightarrow> None
      | Succeeds \<Rightarrow> None
      | ComparisonFails \<Rightarrow> Some (Negate c)
      | DataAbsent \<Rightarrow> Some (if payload_dependent k then False else Negate c)
      | PatternMalformed \<Rightarrow> Some False)"
proof (cases k)
  case TypeCheck
  then show ?thesis by (simp add: check_Type_def compared_def payload_dependent_def)
next
  case PayloadActionCheck
  then show ?thesis
    by (simp add: check_PayloadAction_def with_payload_def compared_def payload_dependent_def
        split: option.splits sum.splits)
next
  case PayloadIssueLabelCheck
  then show ?thesis
    by (simp add: check_PayloadIssueLabel_def with_payload_def compared_def payload_dependent_def
        label_loop_found split: option.splits sum.splits)
next
  case PayloadIssueMilestoneTitleCheck
  then show ?thesis
    by (simp add: check_PayloadIssueMilestoneTitle_def with_payload_def compared_def
        payload_dependent_def split: option.splits sum.splits)
next
  case PayloadIssueTitleRegexpCheck
  then show ?thesis
    by (simp add: check_PayloadIssueTitleRegexp_def with_payload_def search_def compared_def
        payload_dependent_def split: option.splits sum.splits)
next
  case PayloadIssueBodyRegexpCheck
  then show ?thesis
    by (simp add: check_PayloadIssueBodyRegexp_def with_payload_def search_def compared_def
        payload_dependent_def split: option.splits sum.splits)
next
  case PublicCheck
  then show ?thesis by (simp add: check_Public_def compared_def payload_dependent_def)
next
  case OrganizationIDCheck
  then show ?thesis
    by (simp add: check_OrganizationID_def compared_def payload_dependent_def split: option.splits)
next
  case RepositoryIDCheck
  then show ?thesis
    by (simp add: check_RepositoryID_def compared_def payload_dependent_def split: option.splits)
qed

lemma Matches_first_return:
  "Matches lib c event =
     first_return (map (statement lib c event) evaluation_order) (\<not> Negate c)"
  by (simp add: Matches_def evaluation_order_def split: option.splits)

lemma first_return_skip:
  "\<forall>x \<in> set pre. f x = None \<Longrightarrow>
     first_return (map f (pre @ rest)) final = first_return (map f rest) final"
  by (induction pre) auto

lemma statement_passes: "passes lib c event k \<Longrightarrow> statement lib c event k = None"
  by (auto simp: passes_def statement_by_outcome)

lemma Matches_reaches:
  assumes "evaluation_order = pre @ k # post" and "\<forall>k' \<in> set pre. passes lib c event k'"
  shows "Matches lib c event =
           (case statement lib c event k of
              Some r \<Rightarrow> r
            | None \<Rightarrow> first_return (map (statement lib c event) post) (\<not> Negate c))"
proof -
  have "\<forall>k' \<in> set pre. statement lib c event k' = None"
    using assms(2) by (simp add: statement_passes)
  then have "first_return (map (statement lib c event) (pre @ k # post)) (\<not> Negate c) =
             first_return (map (statement lib c event) (k # post)) (\<not> Negate c)"
    by (rule first_return_skip)
  then show ?thesis
    by (simp add: Matches_first_return assms(1) split: option.splits)
qed

lemma Matches_all_pass:
  assumes "\<forall>k \<in> set evaluation_order. passes lib c event k"
  shows "Matches lib c event = (\<not> Negate c)"
proof -
  have "\<forall>k \<in> set evaluation_order. statement lib c event k = None"
    using assms by (simp add: statement_passes)
  then have "first_return (map (statement lib c event) (evaluation_order @ [])) (\<not> Negate c) =
             first_return (map (statement lib c event) []) (\<not> Negate c)"
    by (rule first_return_skip)
  then show ?thesis by (simp add: Matches_first_return)
qed

lemma Conditions_loop_all:
  "Conditions_loop lib cs event = (\<forall>c \<in> set cs. Matches lib c event)"
  by (induction cs) auto

lemma unconfigured_Unset: "\<not> configured k c \<Longrightarrow> outcome_of lib k c event = Unset"
  by (cases k) simp_all

lemma configured_Condition_zero: "\<not> configured k Condition_zero"
  by (cases k) (simp_all add: Condition_zero_def)

lemma outcome_of_Negate: "outcome_of lib k (c\<lparr>Negate := b\<rparr>) event = outcome_of lib k c event"
  by (cases k) (simp_all split: option.splits)

lemma passes_Negate: "passes lib (c\<lparr>Negate := b\<rparr>) event k = passes lib c event k"
  by (simp add: passes_def outcome_of_Negate)

lemma payload_absent_DataAbsent:
  assumes "payload_dependent k" and "configured k c" and "\<not> payload_decodes k event"
  shows "outcome_of lib k c event = DataAbsent"
  using assms
  by (cases k)
     (auto simp: payload_dependent_def payload_decodes_def with_payload_def
           split: option.splits sum.splits)

lemma set_evaluation_order: "k \<in> set evaluation_order"
  by (cases k) (simp_all add: evaluation_order_def)

lemma Matches_only:
  assumes "only k c"
  shows "Matches lib c event =
           (case statement lib c event k of Some r \<Rightarrow> r | None \<Rightarrow> \<not> Negate c)"
proof -
  have other: "statement lib c event k' = None" if "k' \<noteq> k" for k'
  proof -
    have "\<not> configured k' c"
      using assms that set_evaluation_order [of k'] by (simp add: only_def)
    then show ?thesis by (simp add: statement_by_outcome unconfigured_Unset)
  qed
  show ?thesis
    by (cases k) (simp_all add: Matches_first_return evaluation_order_def other del: statement.simps
        split: option.splits)
qed

lemma only_configured: "only k c \<Longrightarrow> configured k c"
  using set_evaluation_order [of k] by (simp add: only_def)

lemma reached_returns:
  assumes "evaluation_order = pre @ k # post" and "\<forall>k' \<in> set pre. passes lib c event k'"
    and "statement lib c event k = Some r"
  shows "Matches lib c event = r"
  using Matches_reaches [OF assms(1) assms(2)] assms(3) by simp

lemma configured_Negate: "configured k (c\<lparr>Negate := b\<rparr>) = configured k c"
  by (cases k) simp_all

lemma only_Negate: "only k (c\<lparr>Negate := b\<rparr>) = only k c"
  by (simp add: only_def configured_Negate)

lemma present_compared:
  assumes "configured k c" and "data_present k event" and "pattern_compiles lib k c"
  shows "outcome_of lib k c event = Succeeds \<or> outcome_of lib k c event = ComparisonFails"
  using assms
  by (cases k)
     (auto simp: payload_dependent_def data_present_def pattern_compiles_def with_payload_def
           compared_def search_def
           split: option.splits sum.splits RawMessage.splits)

lemmas string_defs =
  Condition_String_def evaluation_order_def quote_def is_or_is_not_def Itoa_def
  foo_quotes_def foo_quotes_quoted_def Condition_zero_def

lemma decimal_1: "decimal (Suc 0) = ''1''"
  by (simp add: decimal.simps)

section \<open>The properties\<close>

text \<open>
  C1. \<open>Matches\<close> negates per sub-check, with early return. With the sub-checks taken in the
  fixed order type, payload action, payload issue label, payload issue milestone title,
  payload issue title regexp, payload issue body regexp, visibility, organization ID,
  repository ID: if every sub-check before \<open>k\<close> is unset or succeeds and \<open>k\<close> fails its
  comparison on data that is present, the result is \<open>c.Negate\<close>, whatever the sub-checks
  after \<open>k\<close> would give; if every sub-check is unset or succeeds, the result is \<open>!c.Negate\<close>,
  in particular when none is configured; and the zero Condition, whose Negate is false,
  matches every event.
\<close>

theorem Matches_early_return_per_subcheck:
  "(\<forall>pre k post.
      evaluation_order = pre @ k # post \<and> (\<forall>k' \<in> set pre. passes lib c event k') \<and>
      outcome_of lib k c event = ComparisonFails \<longrightarrow> Matches lib c event = Negate c) \<and>
   ((\<forall>k \<in> set evaluation_order. passes lib c event k) \<longrightarrow> Matches lib c event = (\<not> Negate c)) \<and>
   ((\<forall>k \<in> set evaluation_order. \<not> configured k c) \<longrightarrow> Matches lib c event = (\<not> Negate c)) \<and>
   Matches lib Condition_zero event"
proof (intro conjI allI impI)
  fix pre k post
  assume h: "evaluation_order = pre @ k # post \<and> (\<forall>k' \<in> set pre. passes lib c event k') \<and>
             outcome_of lib k c event = ComparisonFails"
  then have "statement lib c event k = Some (Negate c)"
    by (simp add: statement_by_outcome)
  with h show "Matches lib c event = Negate c"
    using Matches_reaches [of pre k post lib c event] by simp
next
  assume "\<forall>k \<in> set evaluation_order. passes lib c event k"
  then show "Matches lib c event = (\<not> Negate c)" by (rule Matches_all_pass)
next
  assume "\<forall>k \<in> set evaluation_order. \<not> configured k c"
  then have "\<forall>k \<in> set evaluation_order. passes lib c event k"
    by (simp add: passes_def unconfigured_Unset)
  then show "Matches lib c event = (\<not> Negate c)" by (rule Matches_all_pass)
next
  have "\<forall>k \<in> set evaluation_order. passes lib Condition_zero event k"
    by (simp add: passes_def unconfigured_Unset configured_Condition_zero)
  then have "Matches lib Condition_zero event = (\<not> Negate Condition_zero)"
    by (rule Matches_all_pass)
  then show "Matches lib Condition_zero event" by (simp add: Condition_zero_def)
qed

theorem Matches_early_return_per_subcheck_witness:
  "evaluation_order = [TypeCheck] @ PayloadActionCheck # tl (tl evaluation_order) \<and>
   passes golib early_return_Condition opened_Event TypeCheck \<and>
   outcome_of golib PayloadActionCheck early_return_Condition opened_Event = ComparisonFails \<and>
   outcome_of golib PayloadIssueTitleRegexpCheck early_return_Condition opened_Event = PatternMalformed \<and>
   Negate early_return_Condition \<and>
   Matches golib early_return_Condition opened_Event = True \<and>
   list_all (passes golib (Condition_zero\<lparr>PayloadAction := ''OPENED''\<rparr>) opened_Event) evaluation_order \<and>
   Matches golib (Condition_zero\<lparr>PayloadAction := ''OPENED''\<rparr>) opened_Event = True \<and>
   list_all (\<lambda>k. \<not> configured k (Condition_zero\<lparr>Negate := True\<rparr>)) evaluation_order \<and>
   Matches golib (Condition_zero\<lparr>Negate := True\<rparr>) opened_Event = False \<and>
   Matches golib Condition_zero opened_Event"
proof -
  have 1: "evaluation_order = [TypeCheck] @ PayloadActionCheck # tl (tl evaluation_order)"
    by (simp add: evaluation_order_def)
  have 2: "passes golib early_return_Condition opened_Event TypeCheck"
    by (simp add: passes_def early_return_Condition_def Condition_zero_def)
  have 3: "outcome_of golib PayloadActionCheck early_return_Condition opened_Event = ComparisonFails"
    by (simp add: example_defs)
  have 4: "outcome_of golib PayloadIssueTitleRegexpCheck early_return_Condition opened_Event = PatternMalformed"
    by (simp add: example_defs)
  have 5: "list_all (passes golib (Condition_zero\<lparr>PayloadAction := ''OPENED''\<rparr>) opened_Event) evaluation_order"
    by (simp add: evaluation_order_def passes_def example_defs)
  have 6: "list_all (\<lambda>k. \<not> configured k (Condition_zero\<lparr>Negate := True\<rparr>)) evaluation_order"
    by (simp add: evaluation_order_def Condition_zero_def)
  have 7: "Negate early_return_Condition" "\<not> Negate (Condition_zero\<lparr>PayloadAction := ''OPENED''\<rparr>)"
    "Negate (Condition_zero\<lparr>Negate := True\<rparr>)"
    by (simp_all add: early_return_Condition_def Condition_zero_def)
  have "\<forall>k' \<in> set [TypeCheck]. passes golib early_return_Condition opened_Event k'"
    using 2 by simp
  with 1 3 7 have a: "Matches golib early_return_Condition opened_Event = True"
    using Matches_early_return_per_subcheck [of golib early_return_Condition opened_Event]
    by blast
  have b: "Matches golib (Condition_zero\<lparr>PayloadAction := ''OPENED''\<rparr>) opened_Event = True"
    using 5 7
      Matches_early_return_per_subcheck [of golib "Condition_zero\<lparr>PayloadAction := ''OPENED''\<rparr>" opened_Event]
    by (simp add: list_all_iff)
  have c: "Matches golib (Condition_zero\<lparr>Negate := True\<rparr>) opened_Event = False"
    using 6 7
      Matches_early_return_per_subcheck [of golib "Condition_zero\<lparr>Negate := True\<rparr>" opened_Event]
    by (simp add: list_all_iff)
  have d: "Matches golib Condition_zero opened_Event"
    using Matches_early_return_per_subcheck [of golib Condition_zero opened_Event] by simp
  show ?thesis using 1 2 3 4 5 6 7 a b c d by simp
qed

text \<open>
  C2. \<open>Filter.Matches\<close> aggregates universally and stops at the first condition that does
  not match: it returns true exactly when every condition of the sequence matches the
  event; when the conditions before \<open>c\<close> match and \<open>c\<close> does not, the result is false
  whatever conditions follow \<open>c\<close>; a filter without conditions matches every event.
\<close>

theorem Filter_Matches_universal:
  "Filter_Matches lib f event = (\<forall>c \<in> set (Conditions f). Matches lib c event) \<and>
   (\<forall>pre c post.
      Conditions f = pre @ c # post \<and> (\<forall>c' \<in> set pre. Matches lib c' event) \<and>
      \<not> Matches lib c event \<longrightarrow>
      Filter_Matches lib f event = False \<and> Conditions_loop lib (pre @ [c]) event = False) \<and>
   (Conditions f = [] \<longrightarrow> Filter_Matches lib f event)"
  by (auto simp add: Filter_Matches_def Conditions_loop_all)

theorem Filter_Matches_universal_witness:
  "Conditions private_issues_Filter =
     [] @ Condition_zero\<lparr>ComparePublic := True, Public := False\<rparr> #
     [Condition_zero\<lparr>Type := ''IssuesEvent''\<rparr>] \<and>
   \<not> Matches golib (Condition_zero\<lparr>ComparePublic := True, Public := False\<rparr>) public_issue_Event \<and>
   Filter_Matches golib private_issues_Filter public_issue_Event = False \<and>
   list_all (\<lambda>c. Matches golib c private_issue_Event) (Conditions private_issues_Filter) \<and>
   Filter_Matches golib private_issues_Filter private_issue_Event = True \<and>
   Filter_Matches golib private_issues_Filter private_push_Event = False \<and>
   Conditions \<lparr>Conditions = []\<rparr> = [] \<and>
   Filter_Matches golib \<lparr>Conditions = []\<rparr> Event_zero"
proof -
  have 1: "Conditions private_issues_Filter =
     [] @ Condition_zero\<lparr>ComparePublic := True, Public := False\<rparr> #
     [Condition_zero\<lparr>Type := ''IssuesEvent''\<rparr>]"
    by (simp add: private_issues_Filter_def)
  have 2: "\<not> Matches golib (Condition_zero\<lparr>ComparePublic := True, Public := False\<rparr>) public_issue_Event"
    by (simp add: Matches_def check_defs example_defs)
  have 3: "list_all (\<lambda>c. Matches golib c private_issue_Event) (Conditions private_issues_Filter)"
    by (simp add: private_issues_Filter_def Matches_def check_defs example_defs)
  have 4: "\<not> list_all (\<lambda>c. Matches golib c private_push_Event) (Conditions private_issues_Filter)"
    by (simp add: private_issues_Filter_def Matches_def check_defs example_defs)
  have 5: "Conditions \<lparr>Conditions = []\<rparr> = []" by simp
  have a: "Filter_Matches golib private_issues_Filter public_issue_Event = False"
    using 1 2 Filter_Matches_universal [of golib private_issues_Filter public_issue_Event]
    by (metis empty_iff list.set(1))
  have b: "Filter_Matches golib private_issues_Filter private_issue_Event = True"
    using 3 Filter_Matches_universal [of golib private_issues_Filter private_issue_Event]
    by (simp add: list_all_iff)
  have c: "Filter_Matches golib private_issues_Filter private_push_Event = False"
    using 4 Filter_Matches_universal [of golib private_issues_Filter private_push_Event]
    by (simp add: list_all_iff)
  have d: "Filter_Matches golib \<lparr>Conditions = []\<rparr> Event_zero"
    using 5 Filter_Matches_universal [of golib "\<lparr>Conditions = []\<rparr>" Event_zero]
    by simp
  show ?thesis using 1 2 3 5 a b c d by simp
qed

text \<open>
  C3 (the code at the inputs where it departs from the claim). A payload that is present
  but has no \<open>action\<close> member, or whose \<open>issue.milestone\<close> is \<open>null\<close>, decodes without error:
  the field keeps its zero value, the empty string. The comparison with the configured
  value then fails and \<open>Matches\<close> returns \<open>c.Negate\<close>, which is true here, where the same
  condition on an event without payload, or with a payload whose action is a number,
  returns false.
\<close>

theorem Matches_missing_path_returns_Negate:
  "RawPayload empty_object_Event = Some (Text (JObject [])) \<and>
   Unmarshal_Action (Text (JObject [])) = Inr [] \<and>
   Matches golib (Condition_zero\<lparr>PayloadAction := ''opened'', Negate := True\<rparr>) empty_object_Event = True \<and>
   RawPayload null_milestone_Event =
     Some (Text (JObject [(''issue'', JObject [(''milestone'', JNull)])])) \<and>
   Unmarshal_Issue_Milestone_Title (Text (JObject [(''issue'', JObject [(''milestone'', JNull)])])) = Inr [] \<and>
   Matches golib (Condition_zero\<lparr>PayloadIssueMilestoneTitle := ''nomatch'', Negate := True\<rparr>)
     null_milestone_Event = True \<and>
   RawPayload Event_zero = None \<and>
   Matches golib (Condition_zero\<lparr>PayloadAction := ''opened'', Negate := True\<rparr>) Event_zero = False \<and>
   Unmarshal_Action (Text (JObject [(''action'', JNumber ''1'')])) = Inl UnmarshalTypeError \<and>
   Matches golib (Condition_zero\<lparr>PayloadAction := ''opened'', Negate := True\<rparr>) number_action_Event = False"
  by (simp add: Matches_def check_defs example_defs)

text \<open>
  C4 (as amended). For a condition that configures exactly one sub-check \<open>k\<close>: if the data
  that \<open>k\<close> requires is present on the event (for a payload sub-check a payload that
  decodes and has the expected path, for an ID sub-check the organization or repository
  reference) and, for a regexp sub-check, the pattern compiles, then \<open>Matches\<close> with Negate
  set is the negation of \<open>Matches\<close> with Negate clear; if \<open>k\<close> is a payload sub-check and
  the raw payload is nil or \<open>json.Unmarshal\<close> returns an error for it, both return false.
  Nothing is said of an event whose organization or repository reference is nil, nor of
  a payload that decodes without having the path.
\<close>

theorem Matches_negation_law:
  assumes "only k c"
  shows "(data_present k event \<and> pattern_compiles lib k c \<longrightarrow>
            Matches lib (c\<lparr>Negate := True\<rparr>) event = (\<not> Matches lib (c\<lparr>Negate := False\<rparr>) event)) \<and>
         (payload_dependent k \<and>
          (RawPayload event = None \<or> (\<exists>raw. RawPayload event = Some raw \<and> \<not> decodes k raw)) \<longrightarrow>
            Matches lib (c\<lparr>Negate := True\<rparr>) event = False \<and>
            Matches lib (c\<lparr>Negate := False\<rparr>) event = False)"
proof -
  have m: "Matches lib (c\<lparr>Negate := b\<rparr>) event =
             (case outcome_of lib k c event of
                Unset \<Rightarrow> \<not> b
              | Succeeds \<Rightarrow> \<not> b
              | ComparisonFails \<Rightarrow> b
              | DataAbsent \<Rightarrow> (if payload_dependent k then False else b)
              | PatternMalformed \<Rightarrow> False)" for b
    using Matches_only [of k "c\<lparr>Negate := b\<rparr>" lib event] assms
    by (simp add: only_Negate statement_by_outcome outcome_of_Negate split: outcome.splits)
  have c: "configured k c" using assms by (rule only_configured)
  show ?thesis
  proof (intro conjI impI)
    assume "data_present k event \<and> pattern_compiles lib k c"
    then have "outcome_of lib k c event = Succeeds \<or> outcome_of lib k c event = ComparisonFails"
      using c by (simp add: present_compared)
    then show "Matches lib (c\<lparr>Negate := True\<rparr>) event = (\<not> Matches lib (c\<lparr>Negate := False\<rparr>) event)"
      by (auto simp: m)
  next
    assume h: "payload_dependent k \<and>
               (RawPayload event = None \<or> (\<exists>raw. RawPayload event = Some raw \<and> \<not> decodes k raw))"
    then have "\<not> payload_decodes k event"
      by (auto simp: payload_decodes_def)
    with h have "outcome_of lib k c event = DataAbsent"
      using c by (simp add: payload_absent_DataAbsent)
    with h show "Matches lib (c\<lparr>Negate := True\<rparr>) event = False"
      and "Matches lib (c\<lparr>Negate := False\<rparr>) event = False"
      by (simp_all add: m)
  qed
qed

theorem Matches_negation_law_witness:
  "only PayloadActionCheck (Condition_zero\<lparr>PayloadAction := ''closed''\<rparr>) \<and>
   data_present PayloadActionCheck opened_Event \<and>
   pattern_compiles golib PayloadActionCheck (Condition_zero\<lparr>PayloadAction := ''closed''\<rparr>) \<and>
   Matches golib (Condition_zero\<lparr>PayloadAction := ''closed'', Negate := False\<rparr>) opened_Event = False \<and>
   Matches golib (Condition_zero\<lparr>PayloadAction := ''closed'', Negate := True\<rparr>) opened_Event = True \<and>
   only PayloadIssueTitleRegexpCheck (Condition_zero\<lparr>PayloadIssueTitleRegexp := will_match\<rparr>) \<and>
   data_present PayloadIssueTitleRegexpCheck match_title_Event \<and>
   pattern_compiles golib PayloadIssueTitleRegexpCheck (Condition_zero\<lparr>PayloadIssueTitleRegexp := will_match\<rparr>) \<and>
   Matches golib (Condition_zero\<lparr>PayloadIssueTitleRegexp := will_match, Negate := False\<rparr>) match_title_Event = True \<and>
   Matches golib (Condition_zero\<lparr>PayloadIssueTitleRegexp := will_match, Negate := True\<rparr>) match_title_Event = False \<and>
   only OrganizationIDCheck (Condition_zero\<lparr>OrganizationID := 1\<rparr>) \<and>
   data_present OrganizationIDCheck organization_2_Event \<and>
   pattern_compiles golib OrganizationIDCheck (Condition_zero\<lparr>OrganizationID := 1\<rparr>) \<and>
   Matches golib (Condition_zero\<lparr>OrganizationID := 1, Negate := False\<rparr>) organization_2_Event = False \<and>
   Matches golib (Condition_zero\<lparr>OrganizationID := 1, Negate := True\<rparr>) organization_2_Event = True \<and>
   only TypeCheck (Condition_zero\<lparr>Type := ''IssuesEvent''\<rparr>) \<and>
   data_present TypeCheck private_push_Event \<and>
   Matches golib (Condition_zero\<lparr>Type := ''IssuesEvent'', Negate := True\<rparr>) private_push_Event =
     (\<not> Matches golib (Condition_zero\<lparr>Type := ''IssuesEvent'', Negate := False\<rparr>) private_push_Event) \<and>
   payload_dependent PayloadActionCheck \<and>
   RawPayload private_push_Event = None \<and>
   Matches golib (Condition_zero\<lparr>PayloadAction := ''closed'', Negate := True\<rparr>) private_push_Event = False \<and>
   Matches golib (Condition_zero\<lparr>PayloadAction := ''closed'', Negate := False\<rparr>) private_push_Event = False \<and>
   RawPayload number_action_Event = Some (Text (JObject [(''action'', JNumber ''1'')])) \<and>
   \<not> decodes PayloadActionCheck (Text (JObject [(''action'', JNumber ''1'')])) \<and>
   Matches golib (Condition_zero\<lparr>PayloadAction := ''closed'', Negate := True\<rparr>) number_action_Event = False \<and>
   \<not> data_present PayloadActionCheck empty_object_Event \<and>
   \<not> data_present PayloadIssueMilestoneTitleCheck null_milestone_Event"
proof -
  let ?a = "Condition_zero\<lparr>PayloadAction := ''closed''\<rparr>"
  let ?r = "Condition_zero\<lparr>PayloadIssueTitleRegexp := will_match\<rparr>"
  let ?o = "Condition_zero\<lparr>OrganizationID := 1\<rparr>"
  let ?t = "Condition_zero\<lparr>Type := ''IssuesEvent''\<rparr>"
  let ?raw = "Text (JObject [(''action'', JNumber ''1'')])"
  have 1: "only PayloadActionCheck ?a" "only PayloadIssueTitleRegexpCheck ?r"
    "only OrganizationIDCheck ?o" "only TypeCheck ?t"
    by (simp_all add: only_def evaluation_order_def Condition_zero_def will_match_def)
  have 2: "data_present PayloadActionCheck opened_Event"
    "data_present PayloadIssueTitleRegexpCheck match_title_Event"
    "data_present OrganizationIDCheck organization_2_Event"
    "data_present TypeCheck private_push_Event"
    by (simp_all add: data_present_def payload_dependent_def example_defs)
  have 3: "pattern_compiles golib PayloadActionCheck ?a"
    "pattern_compiles golib PayloadIssueTitleRegexpCheck ?r"
    "pattern_compiles golib OrganizationIDCheck ?o"
    "pattern_compiles golib TypeCheck ?t"
    by (simp_all add: pattern_compiles_def golib_defs will_match_def)
  have 4: "Matches golib (?a\<lparr>Negate := False\<rparr>) opened_Event = False"
    "Matches golib (?r\<lparr>Negate := False\<rparr>) match_title_Event = True"
    "Matches golib (?o\<lparr>Negate := False\<rparr>) organization_2_Event = False"
    by (simp_all add: Matches_def check_defs example_defs)
  have a: "Matches golib (?a\<lparr>Negate := True\<rparr>) opened_Event = True"
    using Matches_negation_law [OF 1(1), of opened_Event golib] 2(1) 3(1) 4(1) by blast
  have r: "Matches golib (?r\<lparr>Negate := True\<rparr>) match_title_Event = False"
    using Matches_negation_law [OF 1(2), of match_title_Event golib] 2(2) 3(2) 4(2) by blast
  have o: "Matches golib (?o\<lparr>Negate := True\<rparr>) organization_2_Event = True"
    using Matches_negation_law [OF 1(3), of organization_2_Event golib] 2(3) 3(3) 4(3) by blast
  have t: "Matches golib (?t\<lparr>Negate := True\<rparr>) private_push_Event =
           (\<not> Matches golib (?t\<lparr>Negate := False\<rparr>) private_push_Event)"
    using Matches_negation_law [OF 1(4), of private_push_Event golib] 2(4) 3(4) by blast
  have 5: "payload_dependent PayloadActionCheck" by (simp add: payload_dependent_def)
  have 6: "RawPayload private_push_Event = None" by (simp add: example_defs)
  have 7: "RawPayload number_action_Event = Some ?raw" by (simp add: example_defs)
  have 8: "\<not> decodes PayloadActionCheck ?raw" by (simp add: decode_defs)
  have n: "Matches golib (?a\<lparr>Negate := True\<rparr>) private_push_Event = False \<and>
           Matches golib (?a\<lparr>Negate := False\<rparr>) private_push_Event = False"
    using Matches_negation_law [OF 1(1), of private_push_Event golib] 5 6 by blast
  have e: "Matches golib (?a\<lparr>Negate := True\<rparr>) number_action_Event = False"
    using Matches_negation_law [OF 1(1), of number_action_Event golib] 5 7 8 by blast
  have 9: "\<not> data_present PayloadActionCheck empty_object_Event"
    "\<not> data_present PayloadIssueMilestoneTitleCheck null_milestone_Event"
    by (simp_all add: data_present_def payload_dependent_def example_defs)
  show ?thesis using 1 2 3 4 5 6 7 8 9 a r o t n e by simp
qed

theorem Matches_negation_law_counterexample:
  "only PayloadIssueTitleRegexpCheck (Condition_zero\<lparr>PayloadIssueTitleRegexp := ''a**''\<rparr>) \<and>
   data_present PayloadIssueTitleRegexpCheck match_title_Event \<and>
   Compile golib ''a**'' = None \<and>
   Matches golib (Condition_zero\<lparr>PayloadIssueTitleRegexp := ''a**'', Negate := True\<rparr>) match_title_Event = False \<and>
   Matches golib (Condition_zero\<lparr>PayloadIssueTitleRegexp := ''a**'', Negate := False\<rparr>) match_title_Event = False"
  by (simp add: only_def evaluation_order_def data_present_def payload_dependent_def
      Matches_def check_defs example_defs)

text \<open>
  The case that the amended C4 leaves out. The organization check tests the nil reference
  in the same condition as the comparison of the IDs, so a condition with Negate set
  matches an event that has no organization, where the comments of the fields say
  that the event must have a non-nil Organization and that a condition whose required
  fields are not set continues to return false, as the payload checks do for a nil
  payload. The same holds of the repository check.
\<close>

lemma nil_reference_returns_Negate:
  "Org Event_zero = None \<and>
   Matches golib (Condition_zero\<lparr>OrganizationID := 1, Negate := True\<rparr>) Event_zero = True \<and>
   Repo Event_zero = None \<and>
   Matches golib (Condition_zero\<lparr>RepositoryID := 1, Negate := True\<rparr>) Event_zero = True \<and>
   RawPayload Event_zero = None \<and>
   Matches golib (Condition_zero\<lparr>PayloadAction := ''opened'', Negate := True\<rparr>) Event_zero = False"
  by (simp add: Matches_def check_defs example_defs)

text \<open>
  C5 (as amended). When a payload-dependent sub-check \<open>k\<close> is configured, every sub-check
  before it in the fixed order is unset or succeeds, and the event's raw payload is nil or
  does not decode into the shape that \<open>k\<close> expects, \<open>Matches\<close> returns false, whatever the
  Negate flag is.
\<close>

theorem Matches_payload_absent:
  assumes "evaluation_order = pre @ k # post"
    and "payload_dependent k" and "configured k c"
    and "\<forall>k' \<in> set pre. passes lib c event k'"
    and "RawPayload event = None \<or> (\<exists>raw. RawPayload event = Some raw \<and> \<not> decodes k raw)"
  shows "\<forall>b. Matches lib (c\<lparr>Negate := b\<rparr>) event = False"
proof
  fix b
  let ?c = "c\<lparr>Negate := b\<rparr>"
  have "\<not> payload_decodes k event"
    using assms(5) by (auto simp: payload_decodes_def)
  moreover have "configured k ?c"
    using assms(3) by (cases k) simp_all
  ultimately have "outcome_of lib k ?c event = DataAbsent"
    using assms(2) by (simp add: payload_absent_DataAbsent)
  then have s: "statement lib ?c event k = Some False"
    using assms(2) by (simp add: statement_by_outcome)
  have p: "\<forall>k' \<in> set pre. passes lib ?c event k'"
    using assms(4) by (simp add: passes_Negate)
  show "Matches lib ?c event = False"
    using assms(1) p s by (rule reached_returns)
qed

theorem Matches_payload_absent_witness:
  "evaluation_order = [TypeCheck, PayloadActionCheck] @ PayloadIssueLabelCheck # drop 3 evaluation_order \<and>
   payload_dependent PayloadIssueLabelCheck \<and>
   configured PayloadIssueLabelCheck opened_bug_Condition \<and>
   list_all (passes golib opened_bug_Condition string_labels_Event) [TypeCheck, PayloadActionCheck] \<and>
   RawPayload string_labels_Event =
     Some (Text (JObject [(''action'', JString ''opened''), (''issue'', JObject [(''labels'', JString ''bug'')])])) \<and>
   \<not> decodes PayloadIssueLabelCheck
       (Text (JObject [(''action'', JString ''opened''), (''issue'', JObject [(''labels'', JString ''bug'')])])) \<and>
   Matches golib (opened_bug_Condition\<lparr>Negate := True\<rparr>) string_labels_Event = False \<and>
   Matches golib (opened_bug_Condition\<lparr>Negate := False\<rparr>) string_labels_Event = False \<and>
   RawPayload private_issue_Event = None \<and>
   list_all (passes golib opened_bug_Condition private_issue_Event) [TypeCheck] \<and>
   Matches golib (opened_bug_Condition\<lparr>Negate := True\<rparr>) private_issue_Event = False"
proof -
  let ?raw = "Text (JObject [(''action'', JString ''opened''), (''issue'', JObject [(''labels'', JString ''bug'')])])"
  have 1: "evaluation_order = [TypeCheck, PayloadActionCheck] @ PayloadIssueLabelCheck # drop 3 evaluation_order"
    by (simp add: evaluation_order_def)
  have 2: "payload_dependent PayloadIssueLabelCheck" by (simp add: payload_dependent_def)
  have 3: "configured PayloadIssueLabelCheck opened_bug_Condition"
    by (simp add: opened_bug_Condition_def Condition_zero_def)
  have 4: "list_all (passes golib opened_bug_Condition string_labels_Event) [TypeCheck, PayloadActionCheck]"
    by (simp add: passes_def opened_bug_Condition_def example_defs)
  have 5: "RawPayload string_labels_Event = Some ?raw"
    by (simp add: example_defs)
  have 6: "\<not> decodes PayloadIssueLabelCheck ?raw"
    by (simp add: decode_defs)
  have 7: "RawPayload string_labels_Event = None \<or>
           (\<exists>raw. RawPayload string_labels_Event = Some raw \<and> \<not> decodes PayloadIssueLabelCheck raw)"
    using 5 6 by simp
  have 8: "\<forall>k' \<in> set [TypeCheck, PayloadActionCheck]. passes golib opened_bug_Condition string_labels_Event k'"
    using 4 by (simp add: list_all_iff)
  note a = Matches_payload_absent [OF 1 2 3 8 7]
  have 9: "evaluation_order = [TypeCheck] @ PayloadActionCheck # drop 2 evaluation_order"
    by (simp add: evaluation_order_def)
  have 10: "payload_dependent PayloadActionCheck" by (simp add: payload_dependent_def)
  have 11: "configured PayloadActionCheck opened_bug_Condition"
    by (simp add: opened_bug_Condition_def Condition_zero_def)
  have 12: "list_all (passes golib opened_bug_Condition private_issue_Event) [TypeCheck]"
    by (simp add: passes_def opened_bug_Condition_def example_defs)
  have 13: "RawPayload private_issue_Event = None" by (simp add: example_defs)
  have 14: "\<forall>k' \<in> set [TypeCheck]. passes golib opened_bug_Condition private_issue_Event k'"
    using 12 by (simp add: list_all_iff)
  have 15: "RawPayload private_issue_Event = None \<or>
           (\<exists>raw. RawPayload private_issue_Event = Some raw \<and> \<not> decodes PayloadActionCheck raw)"
    using 13 by simp
  note b = Matches_payload_absent [OF 9 10 11 14 15]
  show ?thesis using 1 2 3 4 5 6 12 13 a b by simp
qed

theorem Matches_payload_absent_counterexample:
  "payload_dependent PayloadActionCheck \<and>
   configured PayloadActionCheck (opened_bug_Condition\<lparr>Negate := True\<rparr>) \<and>
   RawPayload private_push_Event = None \<and>
   Matches golib (opened_bug_Condition\<lparr>Negate := True\<rparr>) private_push_Event = True"
  by (simp add: payload_dependent_def opened_bug_Condition_def Matches_def check_defs example_defs)

text \<open>
  C6. A malformed pattern is a hard failure of its sub-check. When \<open>PayloadIssueTitleRegexp\<close>
  is set to a pattern that \<open>regexp.Compile\<close> rejects and the event's payload decodes into the
  issue-title shape, the title statement of \<open>Matches\<close> returns false, never \<open>c.Negate\<close>; so
  \<open>Matches\<close> returns false for either value of Negate once the statement is reached, that
  is, when the sub-checks before it are unset or succeed. The same holds for
  \<open>PayloadIssueBodyRegexp\<close> and the issue-body shape.
\<close>

theorem Matches_malformed_regexp:
  "(PayloadIssueTitleRegexp c \<noteq> [] \<and> Compile lib (PayloadIssueTitleRegexp c) = None \<and>
    RawPayload event = Some raw \<and> Unmarshal_Issue_Title raw = Inr title \<longrightarrow>
      (\<forall>b. check_PayloadIssueTitleRegexp lib (c\<lparr>Negate := b\<rparr>) event = Some False) \<and>
      ((\<forall>k' \<in> set [TypeCheck, PayloadActionCheck, PayloadIssueLabelCheck,
                     PayloadIssueMilestoneTitleCheck]. passes lib c event k') \<longrightarrow>
       (\<forall>b. Matches lib (c\<lparr>Negate := b\<rparr>) event = False))) \<and>
   (PayloadIssueBodyRegexp c \<noteq> [] \<and> Compile lib (PayloadIssueBodyRegexp c) = None \<and>
    RawPayload event = Some raw \<and> Unmarshal_Issue_Body raw = Inr body \<longrightarrow>
      (\<forall>b. check_PayloadIssueBodyRegexp lib (c\<lparr>Negate := b\<rparr>) event = Some False) \<and>
      ((\<forall>k' \<in> set [TypeCheck, PayloadActionCheck, PayloadIssueLabelCheck,
                     PayloadIssueMilestoneTitleCheck, PayloadIssueTitleRegexpCheck].
           passes lib c event k') \<longrightarrow>
       (\<forall>b. Matches lib (c\<lparr>Negate := b\<rparr>) event = False)))"
proof (intro conjI impI allI)
  fix b
  assume h: "PayloadIssueTitleRegexp c \<noteq> [] \<and> Compile lib (PayloadIssueTitleRegexp c) = None \<and>
             RawPayload event = Some raw \<and> Unmarshal_Issue_Title raw = Inr title"
  then show s: "check_PayloadIssueTitleRegexp lib (c\<lparr>Negate := b\<rparr>) event = Some False"
    by (simp add: check_PayloadIssueTitleRegexp_def)
  assume "\<forall>k' \<in> set [TypeCheck, PayloadActionCheck, PayloadIssueLabelCheck,
                      PayloadIssueMilestoneTitleCheck]. passes lib c event k'"
  then have p: "\<forall>k' \<in> set [TypeCheck, PayloadActionCheck, PayloadIssueLabelCheck,
                      PayloadIssueMilestoneTitleCheck]. passes lib (c\<lparr>Negate := b\<rparr>) event k'"
    by (simp add: passes_Negate)
  have o: "evaluation_order =
             [TypeCheck, PayloadActionCheck, PayloadIssueLabelCheck, PayloadIssueMilestoneTitleCheck] @
             PayloadIssueTitleRegexpCheck # [PayloadIssueBodyRegexpCheck, PublicCheck,
               OrganizationIDCheck, RepositoryIDCheck]"
    by (simp add: evaluation_order_def)
  from s have "statement lib (c\<lparr>Negate := b\<rparr>) event PayloadIssueTitleRegexpCheck = Some False"
    by simp
  with o p show "Matches lib (c\<lparr>Negate := b\<rparr>) event = False"
    by (rule reached_returns)
next
  fix b
  assume h: "PayloadIssueBodyRegexp c \<noteq> [] \<and> Compile lib (PayloadIssueBodyRegexp c) = None \<and>
             RawPayload event = Some raw \<and> Unmarshal_Issue_Body raw = Inr body"
  then show s: "check_PayloadIssueBodyRegexp lib (c\<lparr>Negate := b\<rparr>) event = Some False"
    by (simp add: check_PayloadIssueBodyRegexp_def)
  assume "\<forall>k' \<in> set [TypeCheck, PayloadActionCheck, PayloadIssueLabelCheck,
                      PayloadIssueMilestoneTitleCheck, PayloadIssueTitleRegexpCheck].
             passes lib c event k'"
  then have p: "\<forall>k' \<in> set [TypeCheck, PayloadActionCheck, PayloadIssueLabelCheck,
                      PayloadIssueMilestoneTitleCheck, PayloadIssueTitleRegexpCheck].
                   passes lib (c\<lparr>Negate := b\<rparr>) event k'"
    by (simp add: passes_Negate)
  have o: "evaluation_order =
             [TypeCheck, PayloadActionCheck, PayloadIssueLabelCheck, PayloadIssueMilestoneTitleCheck,
              PayloadIssueTitleRegexpCheck] @
             PayloadIssueBodyRegexpCheck # [PublicCheck, OrganizationIDCheck, RepositoryIDCheck]"
    by (simp add: evaluation_order_def)
  from s have "statement lib (c\<lparr>Negate := b\<rparr>) event PayloadIssueBodyRegexpCheck = Some False"
    by simp
  with o p show "Matches lib (c\<lparr>Negate := b\<rparr>) event = False"
    by (rule reached_returns)
qed

theorem Matches_malformed_regexp_witness:
  "PayloadIssueTitleRegexp (Condition_zero\<lparr>PayloadIssueTitleRegexp := ''a**''\<rparr>) \<noteq> [] \<and>
   Compile golib (PayloadIssueTitleRegexp (Condition_zero\<lparr>PayloadIssueTitleRegexp := ''a**''\<rparr>)) = None \<and>
   RawPayload match_title_Event =
     Some (Text (JObject [(''issue'', JObject [(''title'', JString ''This will Match'')])])) \<and>
   Unmarshal_Issue_Title (Text (JObject [(''issue'', JObject [(''title'', JString ''This will Match'')])])) =
     Inr ''This will Match'' \<and>
   list_all (passes golib (Condition_zero\<lparr>PayloadIssueTitleRegexp := ''a**''\<rparr>) match_title_Event)
     [TypeCheck, PayloadActionCheck, PayloadIssueLabelCheck, PayloadIssueMilestoneTitleCheck] \<and>
   check_PayloadIssueTitleRegexp golib
     (Condition_zero\<lparr>PayloadIssueTitleRegexp := ''a**'', Negate := True\<rparr>) match_title_Event = Some False \<and>
   Matches golib (Condition_zero\<lparr>PayloadIssueTitleRegexp := ''a**'', Negate := True\<rparr>) match_title_Event = False \<and>
   Matches golib (Condition_zero\<lparr>PayloadIssueTitleRegexp := ''a**'', Negate := False\<rparr>) match_title_Event = False"
proof -
  let ?c = "Condition_zero\<lparr>PayloadIssueTitleRegexp := ''a**''\<rparr>"
  let ?raw = "Text (JObject [(''issue'', JObject [(''title'', JString ''This will Match'')])])"
  have 1: "PayloadIssueTitleRegexp ?c \<noteq> []" by simp
  have 2: "Compile golib (PayloadIssueTitleRegexp ?c) = None" by (simp add: golib_defs)
  have 3: "RawPayload match_title_Event = Some ?raw" by (simp add: example_defs)
  have 4: "Unmarshal_Issue_Title ?raw = Inr ''This will Match''" by (simp add: decode_defs)
  have 5: "list_all (passes golib ?c match_title_Event)
             [TypeCheck, PayloadActionCheck, PayloadIssueLabelCheck, PayloadIssueMilestoneTitleCheck]"
    by (simp add: passes_def Condition_zero_def)
  have 6: "\<forall>k' \<in> set [TypeCheck, PayloadActionCheck, PayloadIssueLabelCheck,
                       PayloadIssueMilestoneTitleCheck]. passes golib ?c match_title_Event k'"
    using 5 by (simp add: list_all_iff)
  note t = Matches_malformed_regexp [of ?c golib match_title_Event ?raw "''This will Match''",
      THEN conjunct1, rule_format, OF conjI [OF 1 conjI [OF 2 conjI [OF 3 4]]]]
  have a: "check_PayloadIssueTitleRegexp golib (?c\<lparr>Negate := True\<rparr>) match_title_Event = Some False"
    using t [THEN conjunct1] by simp
  have b: "Matches golib (?c\<lparr>Negate := True\<rparr>) match_title_Event = False"
    using t [THEN conjunct2] 6 by blast
  have c: "Matches golib (?c\<lparr>Negate := False\<rparr>) match_title_Event = False"
    using t [THEN conjunct2] 6 by blast
  show ?thesis using 1 2 3 4 5 a b c by simp
qed

text \<open>
  C7. The type sub-check compares for exact equality of the strings; the payload string
  sub-checks compare after \<open>strings.ToLower\<close> on both sides. With the one sub-check
  configured and a payload that decodes, \<open>Matches\<close> returns \<open>!c.Negate\<close> when the comparison
  holds and \<open>c.Negate\<close> when it does not, where the comparison is: the event's type equals
  \<open>Type\<close>; the lowered \<open>payload.action\<close> equals the lowered \<open>PayloadAction\<close>; some element of
  \<open>payload.issue.labels\<close>, lowered, equals the lowered \<open>PayloadIssueLabel\<close> (a membership
  test, which depends on the set of labels only, not on their order); the lowered
  \<open>payload.issue.milestone.title\<close> equals the lowered \<open>PayloadIssueMilestoneTitle\<close>.
\<close>

theorem Matches_string_comparisons:
  "(only TypeCheck c \<longrightarrow>
      Matches lib c event = (if GetType event = Type c then \<not> Negate c else Negate c)) \<and>
   (only PayloadActionCheck c \<and> RawPayload event = Some raw \<and> Unmarshal_Action raw = Inr action \<longrightarrow>
      Matches lib c event =
        (if ToLower lib action = ToLower lib (PayloadAction c) then \<not> Negate c else Negate c)) \<and>
   (only PayloadIssueLabelCheck c \<and> RawPayload event = Some raw \<and>
    Unmarshal_Issue_Labels raw = Inr labels \<longrightarrow>
      Matches lib c event =
        (if \<exists>label \<in> set labels. ToLower lib label = ToLower lib (PayloadIssueLabel c)
         then \<not> Negate c else Negate c)) \<and>
   (only PayloadIssueMilestoneTitleCheck c \<and> RawPayload event = Some raw \<and>
    Unmarshal_Issue_Milestone_Title raw = Inr title \<longrightarrow>
      Matches lib c event =
        (if ToLower lib title = ToLower lib (PayloadIssueMilestoneTitle c)
         then \<not> Negate c else Negate c))"
proof (intro conjI impI)
  assume h: "only TypeCheck c"
  then have "Type c \<noteq> []" using only_configured [OF h] by simp
  then show "Matches lib c event = (if GetType event = Type c then \<not> Negate c else Negate c)"
    using Matches_only [OF h, of lib event] by (simp add: check_Type_def)
next
  assume h: "only PayloadActionCheck c \<and> RawPayload event = Some raw \<and> Unmarshal_Action raw = Inr action"
  then have "PayloadAction c \<noteq> []" using only_configured [of PayloadActionCheck c] by simp
  with h show "Matches lib c event =
        (if ToLower lib action = ToLower lib (PayloadAction c) then \<not> Negate c else Negate c)"
    using Matches_only [of PayloadActionCheck c lib event] by (simp add: check_PayloadAction_def)
next
  assume h: "only PayloadIssueLabelCheck c \<and> RawPayload event = Some raw \<and>
             Unmarshal_Issue_Labels raw = Inr labels"
  then have "PayloadIssueLabel c \<noteq> []" using only_configured [of PayloadIssueLabelCheck c] by simp
  with h show "Matches lib c event =
        (if \<exists>label \<in> set labels. ToLower lib label = ToLower lib (PayloadIssueLabel c)
         then \<not> Negate c else Negate c)"
    using Matches_only [of PayloadIssueLabelCheck c lib event]
    by (simp add: check_PayloadIssueLabel_def label_loop_found)
next
  assume h: "only PayloadIssueMilestoneTitleCheck c \<and> RawPayload event = Some raw \<and>
             Unmarshal_Issue_Milestone_Title raw = Inr title"
  then have "PayloadIssueMilestoneTitle c \<noteq> []"
    using only_configured [of PayloadIssueMilestoneTitleCheck c] by simp
  with h show "Matches lib c event =
        (if ToLower lib title = ToLower lib (PayloadIssueMilestoneTitle c)
         then \<not> Negate c else Negate c)"
    using Matches_only [of PayloadIssueMilestoneTitleCheck c lib event]
    by (simp add: check_PayloadIssueMilestoneTitle_def)
qed

theorem Matches_string_comparisons_witness:
  "only TypeCheck (Condition_zero\<lparr>Type := ''IssuesEvent''\<rparr>) \<and>
   Matches golib (Condition_zero\<lparr>Type := ''IssuesEvent''\<rparr>) private_issue_Event = True \<and>
   only TypeCheck (Condition_zero\<lparr>Type := ''issuesevent''\<rparr>) \<and>
   Matches golib (Condition_zero\<lparr>Type := ''issuesevent''\<rparr>) private_issue_Event = False \<and>
   only PayloadActionCheck (Condition_zero\<lparr>PayloadAction := ''OPENED''\<rparr>) \<and>
   RawPayload opened_Event = Some (Text (JObject [(''action'', JString ''opened'')])) \<and>
   Unmarshal_Action (Text (JObject [(''action'', JString ''opened'')])) = Inr ''opened'' \<and>
   ToLower golib ''OPENED'' = ''opened'' \<and>
   Matches golib (Condition_zero\<lparr>PayloadAction := ''OPENED''\<rparr>) opened_Event = True \<and>
   only PayloadIssueLabelCheck (Condition_zero\<lparr>PayloadIssueLabel := ''lbl''\<rparr>) \<and>
   RawPayload labels_Event =
     Some (Text (JObject [(''issue'', JObject [(''labels'', JArray [JString ''LBL'', JString ''x''])])])) \<and>
   Unmarshal_Issue_Labels
     (Text (JObject [(''issue'', JObject [(''labels'', JArray [JString ''LBL'', JString ''x''])])])) =
     Inr [''LBL'', ''x''] \<and>
   Matches golib (Condition_zero\<lparr>PayloadIssueLabel := ''lbl''\<rparr>) labels_Event = True \<and>
   RawPayload no_labels_Event = Some (Text (JObject [(''issue'', JObject [(''labels'', JArray [])])])) \<and>
   Unmarshal_Issue_Labels (Text (JObject [(''issue'', JObject [(''labels'', JArray [])])])) = Inr [] \<and>
   Matches golib (Condition_zero\<lparr>PayloadIssueLabel := ''lbl''\<rparr>) no_labels_Event = False \<and>
   only PayloadIssueMilestoneTitleCheck (Condition_zero\<lparr>PayloadIssueMilestoneTitle := ''TITLE''\<rparr>) \<and>
   RawPayload milestone_Event =
     Some (Text (JObject [(''issue'', JObject [(''milestone'', JObject [(''Title'', JString ''title'')])])])) \<and>
   Unmarshal_Issue_Milestone_Title
     (Text (JObject [(''issue'', JObject [(''milestone'', JObject [(''Title'', JString ''title'')])])])) =
     Inr ''title'' \<and>
   Matches golib (Condition_zero\<lparr>PayloadIssueMilestoneTitle := ''TITLE''\<rparr>) milestone_Event = True"
proof -
  let ?ra = "Text (JObject [(''action'', JString ''opened'')])"
  let ?rl = "Text (JObject [(''issue'', JObject [(''labels'', JArray [JString ''LBL'', JString ''x''])])])"
  let ?rn = "Text (JObject [(''issue'', JObject [(''labels'', JArray [])])])"
  let ?rm = "Text (JObject [(''issue'', JObject [(''milestone'', JObject [(''Title'', JString ''title'')])])])"
  have 1: "only TypeCheck (Condition_zero\<lparr>Type := ''IssuesEvent''\<rparr>)"
    "only TypeCheck (Condition_zero\<lparr>Type := ''issuesevent''\<rparr>)"
    "only PayloadActionCheck (Condition_zero\<lparr>PayloadAction := ''OPENED''\<rparr>)"
    "only PayloadIssueLabelCheck (Condition_zero\<lparr>PayloadIssueLabel := ''lbl''\<rparr>)"
    "only PayloadIssueMilestoneTitleCheck (Condition_zero\<lparr>PayloadIssueMilestoneTitle := ''TITLE''\<rparr>)"
    by (simp_all add: only_def evaluation_order_def Condition_zero_def)
  have 2: "RawPayload opened_Event = Some ?ra" "RawPayload labels_Event = Some ?rl"
    "RawPayload no_labels_Event = Some ?rn" "RawPayload milestone_Event = Some ?rm"
    by (simp_all add: example_defs)
  have 3: "Unmarshal_Action ?ra = Inr ''opened''" "Unmarshal_Issue_Labels ?rl = Inr [''LBL'', ''x'']"
    "Unmarshal_Issue_Labels ?rn = Inr []" "Unmarshal_Issue_Milestone_Title ?rm = Inr ''title''"
    by (simp_all add: decode_defs)
  have 4: "ToLower golib ''OPENED'' = ''opened''" "ToLower golib ''opened'' = ''opened''"
    "ToLower golib ''LBL'' = ''lbl''" "ToLower golib ''lbl'' = ''lbl''" "ToLower golib ''x'' = ''x''"
    "ToLower golib ''TITLE'' = ''title''" "ToLower golib ''title'' = ''title''"
    by (simp_all add: golib_defs lower_byte_def)
  have 5: "GetType private_issue_Event = ''IssuesEvent''" by (simp add: example_defs)
  have 6: "\<not> Negate (Condition_zero\<lparr>Type := ''IssuesEvent''\<rparr>)"
    "\<not> Negate (Condition_zero\<lparr>Type := ''issuesevent''\<rparr>)"
    "\<not> Negate (Condition_zero\<lparr>PayloadAction := ''OPENED''\<rparr>)"
    "\<not> Negate (Condition_zero\<lparr>PayloadIssueLabel := ''lbl''\<rparr>)"
    "\<not> Negate (Condition_zero\<lparr>PayloadIssueMilestoneTitle := ''TITLE''\<rparr>)"
    by (simp_all add: Condition_zero_def)
  have a: "Matches golib (Condition_zero\<lparr>Type := ''IssuesEvent''\<rparr>) private_issue_Event = True"
    using Matches_string_comparisons [of "Condition_zero\<lparr>Type := ''IssuesEvent''\<rparr>" golib private_issue_Event]
      1 5 6 by simp
  have b: "Matches golib (Condition_zero\<lparr>Type := ''issuesevent''\<rparr>) private_issue_Event = False"
    using Matches_string_comparisons [of "Condition_zero\<lparr>Type := ''issuesevent''\<rparr>" golib private_issue_Event]
      1 5 6 by simp
  have c: "Matches golib (Condition_zero\<lparr>PayloadAction := ''OPENED''\<rparr>) opened_Event = True"
    using Matches_string_comparisons [of "Condition_zero\<lparr>PayloadAction := ''OPENED''\<rparr>" golib
        opened_Event ?ra "''opened''"] 1 2 3 4 6 by simp
  have d: "Matches golib (Condition_zero\<lparr>PayloadIssueLabel := ''lbl''\<rparr>) labels_Event = True"
    using Matches_string_comparisons [of "Condition_zero\<lparr>PayloadIssueLabel := ''lbl''\<rparr>" golib
        labels_Event ?rl _ "[''LBL'', ''x'']"] 1 2 3 4 6 by simp
  have e: "Matches golib (Condition_zero\<lparr>PayloadIssueLabel := ''lbl''\<rparr>) no_labels_Event = False"
    using Matches_string_comparisons [of "Condition_zero\<lparr>PayloadIssueLabel := ''lbl''\<rparr>" golib
        no_labels_Event ?rn _ "[]"] 1 2 3 4 6 by simp
  have f: "Matches golib (Condition_zero\<lparr>PayloadIssueMilestoneTitle := ''TITLE''\<rparr>) milestone_Event = True"
    using Matches_string_comparisons [of "Condition_zero\<lparr>PayloadIssueMilestoneTitle := ''TITLE''\<rparr>" golib
        milestone_Event ?rm _ _ "''title''"] 1 2 3 4 6 by simp
  show ?thesis using 1 2 3 4 a b c d e f by simp
qed

text \<open>
  C8. The regexp sub-checks compile the pattern held in the condition at each evaluation
  and ask \<open>MatchString\<close>, which reports a match anywhere in the string. With the title
  sub-check the only one configured, a payload that decodes and a pattern that compiles,
  \<open>Matches\<close> returns \<open>!c.Negate\<close> when \<open>MatchString\<close> holds of the title and \<open>c.Negate\<close> when
  not; the same for the body. With the pattern \<open>(?i)will\s+match\<close>, the title
  \<open>This will Match\<close> matches, although the pattern does not match at the start of the title,
  and the title \<open>This will Not Match\<close> does not match.
\<close>

theorem Matches_regexp_search:
  "(only PayloadIssueTitleRegexpCheck c \<and> RawPayload event = Some raw \<and>
    Unmarshal_Issue_Title raw = Inr title \<and> Compile lib (PayloadIssueTitleRegexp c) = Some re \<longrightarrow>
      Matches lib c event = (if MatchString lib re title then \<not> Negate c else Negate c)) \<and>
   (only PayloadIssueBodyRegexpCheck c \<and> RawPayload event = Some raw \<and>
    Unmarshal_Issue_Body raw = Inr body \<and> Compile lib (PayloadIssueBodyRegexp c) = Some re \<longrightarrow>
      Matches lib c event = (if MatchString lib re body then \<not> Negate c else Negate c)) \<and>
   Compile golib will_match =
     Some [(FoldLiteral CHR ''w'', One), (FoldLiteral CHR ''i'', One), (FoldLiteral CHR ''l'', One),
           (FoldLiteral CHR ''l'', One), (PerlClass CHR ''s'', Plus), (FoldLiteral CHR ''m'', One),
           (FoldLiteral CHR ''a'', One), (FoldLiteral CHR ''t'', One), (FoldLiteral CHR ''c'', One),
           (FoldLiteral CHR ''h'', One)] \<and>
   Matches golib (Condition_zero\<lparr>PayloadIssueTitleRegexp := will_match\<rparr>) match_title_Event = True \<and>
   \<not> match_here
       [(FoldLiteral CHR ''w'', One), (FoldLiteral CHR ''i'', One), (FoldLiteral CHR ''l'', One),
        (FoldLiteral CHR ''l'', One), (PerlClass CHR ''s'', Plus), (FoldLiteral CHR ''m'', One),
        (FoldLiteral CHR ''a'', One), (FoldLiteral CHR ''t'', One), (FoldLiteral CHR ''c'', One),
        (FoldLiteral CHR ''h'', One)] ''This will Match'' \<and>
   Matches golib (Condition_zero\<lparr>PayloadIssueTitleRegexp := will_match\<rparr>) nomatch_title_Event = False"
proof (intro conjI impI)
  assume h: "only PayloadIssueTitleRegexpCheck c \<and> RawPayload event = Some raw \<and>
    Unmarshal_Issue_Title raw = Inr title \<and> Compile lib (PayloadIssueTitleRegexp c) = Some re"
  then have "PayloadIssueTitleRegexp c \<noteq> []"
    using only_configured [of PayloadIssueTitleRegexpCheck c] by simp
  with h show "Matches lib c event = (if MatchString lib re title then \<not> Negate c else Negate c)"
    using Matches_only [of PayloadIssueTitleRegexpCheck c lib event]
    by (simp add: check_PayloadIssueTitleRegexp_def)
next
  assume h: "only PayloadIssueBodyRegexpCheck c \<and> RawPayload event = Some raw \<and>
    Unmarshal_Issue_Body raw = Inr body \<and> Compile lib (PayloadIssueBodyRegexp c) = Some re"
  then have "PayloadIssueBodyRegexp c \<noteq> []"
    using only_configured [of PayloadIssueBodyRegexpCheck c] by simp
  with h show "Matches lib c event = (if MatchString lib re body then \<not> Negate c else Negate c)"
    using Matches_only [of PayloadIssueBodyRegexpCheck c lib event]
    by (simp add: check_PayloadIssueBodyRegexp_def)
next
  show "Compile golib will_match =
     Some [(FoldLiteral CHR ''w'', One), (FoldLiteral CHR ''i'', One), (FoldLiteral CHR ''l'', One),
           (FoldLiteral CHR ''l'', One), (PerlClass CHR ''s'', Plus), (FoldLiteral CHR ''m'', One),
           (FoldLiteral CHR ''a'', One), (FoldLiteral CHR ''t'', One), (FoldLiteral CHR ''c'', One),
           (FoldLiteral CHR ''h'', One)]"
    by (simp add: golib_defs will_match_def)
next
  show "Matches golib (Condition_zero\<lparr>PayloadIssueTitleRegexp := will_match\<rparr>) match_title_Event = True"
    by (simp add: Matches_def check_defs example_defs)
next
  show "\<not> match_here
       [(FoldLiteral CHR ''w'', One), (FoldLiteral CHR ''i'', One), (FoldLiteral CHR ''l'', One),
        (FoldLiteral CHR ''l'', One), (PerlClass CHR ''s'', Plus), (FoldLiteral CHR ''m'', One),
        (FoldLiteral CHR ''a'', One), (FoldLiteral CHR ''t'', One), (FoldLiteral CHR ''c'', One),
        (FoldLiteral CHR ''h'', One)] ''This will Match''"
    by (simp add: lower_byte_def)
next
  show "Matches golib (Condition_zero\<lparr>PayloadIssueTitleRegexp := will_match\<rparr>) nomatch_title_Event = False"
    by (simp add: Matches_def check_defs example_defs)
qed

theorem Matches_regexp_search_witness:
  "only PayloadIssueTitleRegexpCheck (Condition_zero\<lparr>PayloadIssueTitleRegexp := will_match, Negate := True\<rparr>) \<and>
   RawPayload nomatch_title_Event =
     Some (Text (JObject [(''issue'', JObject [(''title'', JString ''This will Not Match'')])])) \<and>
   Unmarshal_Issue_Title (Text (JObject [(''issue'', JObject [(''title'', JString ''This will Not Match'')])])) =
     Inr ''This will Not Match'' \<and>
   Compile golib (PayloadIssueTitleRegexp (Condition_zero\<lparr>PayloadIssueTitleRegexp := will_match, Negate := True\<rparr>)) =
     Some [(FoldLiteral CHR ''w'', One), (FoldLiteral CHR ''i'', One), (FoldLiteral CHR ''l'', One),
           (FoldLiteral CHR ''l'', One), (PerlClass CHR ''s'', Plus), (FoldLiteral CHR ''m'', One),
           (FoldLiteral CHR ''a'', One), (FoldLiteral CHR ''t'', One), (FoldLiteral CHR ''c'', One),
           (FoldLiteral CHR ''h'', One)] \<and>
   \<not> MatchString golib
       [(FoldLiteral CHR ''w'', One), (FoldLiteral CHR ''i'', One), (FoldLiteral CHR ''l'', One),
        (FoldLiteral CHR ''l'', One), (PerlClass CHR ''s'', Plus), (FoldLiteral CHR ''m'', One),
        (FoldLiteral CHR ''a'', One), (FoldLiteral CHR ''t'', One), (FoldLiteral CHR ''c'', One),
        (FoldLiteral CHR ''h'', One)] ''This will Not Match'' \<and>
   Matches golib (Condition_zero\<lparr>PayloadIssueTitleRegexp := will_match, Negate := True\<rparr>) nomatch_title_Event = True"
proof -
  let ?c = "Condition_zero\<lparr>PayloadIssueTitleRegexp := will_match, Negate := True\<rparr>"
  let ?raw = "Text (JObject [(''issue'', JObject [(''title'', JString ''This will Not Match'')])])"
  let ?re = "[(FoldLiteral CHR ''w'', One), (FoldLiteral CHR ''i'', One), (FoldLiteral CHR ''l'', One),
           (FoldLiteral CHR ''l'', One), (PerlClass CHR ''s'', Plus), (FoldLiteral CHR ''m'', One),
           (FoldLiteral CHR ''a'', One), (FoldLiteral CHR ''t'', One), (FoldLiteral CHR ''c'', One),
           (FoldLiteral CHR ''h'', One)]"
  have 1: "only PayloadIssueTitleRegexpCheck ?c"
    by (simp add: only_def evaluation_order_def Condition_zero_def will_match_def)
  have 2: "RawPayload nomatch_title_Event = Some ?raw" by (simp add: example_defs)
  have 3: "Unmarshal_Issue_Title ?raw = Inr ''This will Not Match''" by (simp add: decode_defs)
  have 4: "Compile golib (PayloadIssueTitleRegexp ?c) = Some ?re"
    by (simp add: golib_defs will_match_def)
  have 5: "\<not> MatchString golib ?re ''This will Not Match''"
    by (simp add: golib_def lower_byte_def is_space_def)
  have 6: "Negate ?c" by simp
  have a: "Matches golib ?c nomatch_title_Event = True"
    using Matches_regexp_search [where c = ?c and lib = golib and event = nomatch_title_Event
          and raw = ?raw and title = "''This will Not Match''" and re = ?re]
      1 2 3 4 5 6 by simp
  show ?thesis using 1 2 3 4 5 a by simp
qed

text \<open>
  C9. \<open>Condition.String\<close> renders the configured sub-checks in the order of evaluation,
  joined with \<open>" AND "\<close> after \<open>If\<close>, each clause worded according to Negate. The renderings
  expected by \<open>TestFilter_string\<close> follow, among them \<open>If type is not "foo"\<close> for
  \<open>Condition{Type: "foo", Negate: true}\<close> and \<open>If event is not not public\<close> for
  \<open>Condition{ComparePublic: true, Public: false, Negate: true}\<close>.
\<close>

theorem Condition_String_renderings:
  "Condition_String c =
     ''If '' @ Join (map (clause c) (filter (\<lambda>k. configured k c) evaluation_order)) '' AND '' \<and>
   Condition_String (Condition_zero\<lparr>Type := ''foo''\<rparr>) =
     ''If type is '' @ [CHR 0x22] @ ''foo'' @ [CHR 0x22] \<and>
   Condition_String (Condition_zero\<lparr>Type := ''foo'', Negate := True\<rparr>) =
     ''If type is not '' @ [CHR 0x22] @ ''foo'' @ [CHR 0x22] \<and>
   Condition_String (Condition_zero\<lparr>PayloadAction := ''foo''\<rparr>) =
     ''If payload action is '' @ [CHR 0x22] @ ''foo'' @ [CHR 0x22] \<and>
   Condition_String (Condition_zero\<lparr>PayloadAction := ''foo'', Negate := True\<rparr>) =
     ''If payload action is not '' @ [CHR 0x22] @ ''foo'' @ [CHR 0x22] \<and>
   Condition_String (Condition_zero\<lparr>Type := ''foo'', PayloadAction := ''bar''\<rparr>) =
     ''If type is '' @ [CHR 0x22] @ ''foo'' @ [CHR 0x22] @ '' AND payload action is '' @ [CHR 0x22] @ ''bar'' @ [CHR 0x22] \<and>
   Condition_String (Condition_zero\<lparr>Type := ''foo'', PayloadAction := ''bar'', Negate := True\<rparr>) =
     ''If type is not '' @ [CHR 0x22] @ ''foo'' @ [CHR 0x22] @ '' AND payload action is not '' @ [CHR 0x22] @ ''bar'' @ [CHR 0x22] \<and>
   Condition_String (Condition_zero\<lparr>PayloadIssueLabel := ''foo''\<rparr>) =
     ''If payload issue label contains '' @ [CHR 0x22] @ ''foo'' @ [CHR 0x22] \<and>
   Condition_String (Condition_zero\<lparr>PayloadIssueLabel := ''foo'', Negate := True\<rparr>) =
     ''If payload issue label does not contain '' @ [CHR 0x22] @ ''foo'' @ [CHR 0x22] \<and>
   Condition_String (Condition_zero\<lparr>PayloadIssueMilestoneTitle := ''foo''\<rparr>) =
     ''If payload issue milestone title is '' @ [CHR 0x22] @ ''foo'' @ [CHR 0x22] \<and>
   Condition_String (Condition_zero\<lparr>PayloadIssueMilestoneTitle := ''foo'', Negate := True\<rparr>) =
     ''If payload issue milestone title is not '' @ [CHR 0x22] @ ''foo'' @ [CHR 0x22] \<and>
   Condition_String (Condition_zero\<lparr>PayloadIssueTitleRegexp := foo_quotes\<rparr>) =
     ''If payload issue title matches regexp '' @ foo_quotes_quoted \<and>
   Condition_String (Condition_zero\<lparr>PayloadIssueTitleRegexp := foo_quotes, Negate := True\<rparr>) =
     ''If payload issue title does not match regexp '' @ foo_quotes_quoted \<and>
   Condition_String (Condition_zero\<lparr>PayloadIssueBodyRegexp := foo_quotes\<rparr>) =
     ''If payload issue body matches regexp '' @ foo_quotes_quoted \<and>
   Condition_String (Condition_zero\<lparr>PayloadIssueBodyRegexp := foo_quotes, Negate := True\<rparr>) =
     ''If payload issue body does not match regexp '' @ foo_quotes_quoted \<and>
   Condition_String (Condition_zero\<lparr>ComparePublic := True, Public := True\<rparr>) =
     ''If event is public'' \<and>
   Condition_String (Condition_zero\<lparr>ComparePublic := True, Public := False\<rparr>) =
     ''If event is not public'' \<and>
   Condition_String (Condition_zero\<lparr>ComparePublic := True, Public := True, Negate := True\<rparr>) =
     ''If event is not public'' \<and>
   Condition_String (Condition_zero\<lparr>ComparePublic := True, Public := False, Negate := True\<rparr>) =
     ''If event is not not public'' \<and>
   Condition_String (Condition_zero\<lparr>OrganizationID := 1\<rparr>) =
     ''If organization ID is 1'' \<and>
   Condition_String (Condition_zero\<lparr>OrganizationID := 1, Negate := True\<rparr>) =
     ''If organization ID is not 1'' \<and>
   Condition_String (Condition_zero\<lparr>RepositoryID := 1\<rparr>) =
     ''If repository ID is 1'' \<and>
   Condition_String (Condition_zero\<lparr>RepositoryID := 1, Negate := True\<rparr>) =
     ''If repository ID is not 1''"
  by (simp add: string_defs decimal_1)

text \<open>
  C10. An event whose visibility field is nil counts as not public. For a condition with
  \<open>ComparePublic\<close> set and such an event, \<open>GetPublic\<close> is false; the visibility sub-check
  succeeds exactly when the condition's \<open>Public\<close> is false, and it is never a failure for
  lack of data: when \<open>Public\<close> is true the visibility statement returns \<open>c.Negate\<close>, and so
  does \<open>Matches\<close> once the statement is reached. With visibility the only sub-check
  configured, \<open>Matches\<close> returns \<open>c.Negate\<close> if \<open>Public\<close> is true and \<open>!c.Negate\<close> if not.
\<close>

theorem Matches_visibility_absent:
  assumes "ComparePublic c" and "Event.Public event = None"
  shows "GetPublic event = False \<and>
         (outcome_of lib PublicCheck c event = Succeeds \<longleftrightarrow> \<not> Public c) \<and>
         outcome_of lib PublicCheck c event \<noteq> DataAbsent \<and>
         check_Public c event = (if Public c then Some (Negate c) else None) \<and>
         (Public c \<and>
          (\<forall>k' \<in> set [TypeCheck, PayloadActionCheck, PayloadIssueLabelCheck,
                        PayloadIssueMilestoneTitleCheck, PayloadIssueTitleRegexpCheck,
                        PayloadIssueBodyRegexpCheck]. passes lib c event k') \<longrightarrow>
          Matches lib c event = Negate c) \<and>
         (only PublicCheck c \<longrightarrow>
          Matches lib c event = (if Public c then Negate c else \<not> Negate c))"
proof -
  have g: "GetPublic event = False"
    using assms(2) by (simp add: GetPublic_def)
  have s: "check_Public c event = (if Public c then Some (Negate c) else None)"
    using assms(1) g by (simp add: check_Public_def)
  have o: "evaluation_order =
             [TypeCheck, PayloadActionCheck, PayloadIssueLabelCheck, PayloadIssueMilestoneTitleCheck,
              PayloadIssueTitleRegexpCheck, PayloadIssueBodyRegexpCheck] @
             PublicCheck # [OrganizationIDCheck, RepositoryIDCheck]"
    by (simp add: evaluation_order_def)
  have r: "Matches lib c event = Negate c"
    if "Public c" and
      "\<forall>k' \<in> set [TypeCheck, PayloadActionCheck, PayloadIssueLabelCheck,
                    PayloadIssueMilestoneTitleCheck, PayloadIssueTitleRegexpCheck,
                    PayloadIssueBodyRegexpCheck]. passes lib c event k'"
  proof -
    have "statement lib c event PublicCheck = Some (Negate c)"
      using s that(1) by simp
    with o that(2) show ?thesis by (rule reached_returns)
  qed
  have u: "Matches lib c event = (if Public c then Negate c else \<not> Negate c)"
    if "only PublicCheck c"
    using Matches_only [OF that, of lib event] s by simp
  show ?thesis
    using g s r u assms(1) by (simp add: compared_def)
qed

theorem Matches_visibility_absent_witness:
  "ComparePublic (Condition_zero\<lparr>ComparePublic := True, Public := True, Negate := True\<rparr>) \<and>
   Event.Public Event_zero = None \<and>
   Public (Condition_zero\<lparr>ComparePublic := True, Public := True, Negate := True\<rparr>) \<and>
   only PublicCheck (Condition_zero\<lparr>ComparePublic := True, Public := True, Negate := True\<rparr>) \<and>
   Matches golib (Condition_zero\<lparr>ComparePublic := True, Public := True, Negate := True\<rparr>) Event_zero = True \<and>
   ComparePublic (Condition_zero\<lparr>ComparePublic := True\<rparr>) \<and>
   only PublicCheck (Condition_zero\<lparr>ComparePublic := True\<rparr>) \<and>
   Matches golib (Condition_zero\<lparr>ComparePublic := True\<rparr>) Event_zero = True"
proof -
  let ?c = "Condition_zero\<lparr>ComparePublic := True, Public := True, Negate := True\<rparr>"
  let ?d = "Condition_zero\<lparr>ComparePublic := True\<rparr>"
  have 1: "ComparePublic ?c" "ComparePublic ?d" by simp_all
  have 2: "Event.Public Event_zero = None" by (simp add: Event_zero_def)
  have 3: "Public ?c" "\<not> Public ?d" "Negate ?c" "\<not> Negate ?d" by (simp_all add: Condition_zero_def)
  have 4: "only PublicCheck ?c" "only PublicCheck ?d"
    by (simp_all add: only_def evaluation_order_def Condition_zero_def)
  have a: "Matches golib ?c Event_zero = True"
    using Matches_visibility_absent [OF 1(1) 2, of golib] 3 4 by simp
  have b: "Matches golib ?d Event_zero = True"
    using Matches_visibility_absent [OF 1(2) 2, of golib] 3 4 by simp
  show ?thesis using 1 2 3 4 a b by simp
qed

end
